theory Spec2Isabelle
  imports Main "HOL-Library.AList"
begin

section \<open>The CalDAV synchronisation plugin (src/main.ts)\<close>

text \<open>
  A shallow embedding of the synchronisation core of \<^verbatim>\<open>src/main.ts\<close>: the record read from
  a note's front matter, its mapping to an ICS event, the push of one event (PUT, then a
  PROPFIND that reads the event back), the fetch of the remote collection, and the full pass
  that pushes every note and imports the remote events no note knows.

  The Obsidian API and the libraries the file imports (\<^verbatim>\<open>requestUrl\<close>, \<^verbatim>\<open>moment\<close>,
  \<^verbatim>\<open>ts-ics\<close>, \<^verbatim>\<open>uuid\<close>) and the built-ins \<^verbatim>\<open>Date\<close>, \<^verbatim>\<open>btoa\<close> and
  \<^verbatim>\<open>JSON.stringify\<close> are not part of the repository. They are the fields of a record
  \<open>host\<close> over which every theorem is universally quantified. \<^verbatim>\<open>requestUrl\<close> may
  reject its promise, and \<^verbatim>\<open>generateIcsCalendar\<close>, \<^verbatim>\<open>convertIcsCalendar\<close> and
  \<^verbatim>\<open>btoa\<close> may throw: each of them returns an error (\<open>Inl\<close>) or a value. An error
  raised inside the \<^verbatim>\<open>try\<close> of \<^verbatim>\<open>syncEvent\<close> is caught there; every other one leaves
  the function that meets it, and its callers, up to the command. The results of
  \<^verbatim>\<open>requestUrl\<close>, \<^verbatim>\<open>uuidv4\<close> and the clock may change from call to call: the state
  counts the host calls (\<open>tick\<close>) and the n-th call asks the host at n.

  The vault is part of the state. Reading a note, reading its cached metadata, editing its front
  matter and creating a note are taken to succeed; the source handles no failure of them.
\<close>

subsection \<open>JavaScript values\<close>

text \<open>A value of type \<^verbatim>\<open>string | undefined\<close> is a \<open>string option\<close>; it is truthy when it
  is a non-empty string.\<close>

definition truthy :: "string option \<Rightarrow> bool" where
  "truthy v = (case v of None \<Rightarrow> False | Some s \<Rightarrow> s \<noteq> [])"

text \<open>\<^verbatim>\<open>a || b\<close> on such values.\<close>

definition or_else :: "string option \<Rightarrow> string \<Rightarrow> string" where
  "or_else v d = (case v of None \<Rightarrow> d | Some s \<Rightarrow> if s \<noteq> [] then s else d)"

text \<open>A value interpolated in a template literal.\<close>

definition interpolate :: "string option \<Rightarrow> string" where
  "interpolate v = (case v of None \<Rightarrow> ''undefined'' | Some s \<Rightarrow> s)"

definition startsWith :: "string \<Rightarrow> string \<Rightarrow> bool" where
  "startsWith s p = (take (length p) s = p)"

definition endsWith :: "string \<Rightarrow> string \<Rightarrow> bool" where
  "endsWith s p = (length p \<le> length s \<and> drop (length s - length p) s = p)"

definition digit_char :: "nat \<Rightarrow> char" where
  "digit_char d = char_of (48 + d)"

text \<open>\<^verbatim>\<open>n.toString()\<close> for a non-negative integer: its decimal digits.\<close>

function toString :: "nat \<Rightarrow> string" where
  "toString n = (if n < 10 then [digit_char n] else toString (n div 10) @ [digit_char (n mod 10)])"
  by pat_completeness auto
termination
  by (relation "measure id") auto

declare toString.simps [simp del]

text \<open>A \<^verbatim>\<open>Date\<close> holds a time value in milliseconds, or NaN (an Invalid Date): \<open>None\<close>.
  The time value of a valid Date is an integer of magnitude at most 8.64e15; a Date built from
  a number outside that range is invalid (ECMAScript's TimeClip).\<close>

type_synonym jsdate = "int option"

definition TimeClip :: "int \<Rightarrow> int option" where
  "TimeClip t = (if \<bar>t\<bar> \<le> 8640000000000000 then Some t else None)"

text \<open>\<^verbatim>\<open>new Date(d.getTime() + ms)\<close>.\<close>

definition date_plus :: "jsdate \<Rightarrow> int \<Rightarrow> jsdate" where
  "date_plus d ms = (case d of None \<Rightarrow> None | Some t \<Rightarrow> TimeClip (t + ms))"

subsection \<open>The data of the plugin\<close>

record ObsidianEvent =
  date :: string
  start_time :: "string option"
  end_time :: "string option"
  summary :: string
  description :: string
  location :: "string option"
  url :: "string option"
  guid :: "string option"

record ObsidianCalDAVPluginSettings =
  eventsDirectory :: string
  yandexUsername :: string
  yandexAppPassword :: string
  yandexCalendarUrl :: string

text \<open>The types of \<^verbatim>\<open>ts-ics\<close> the source uses. An event of a parsed calendar has the
  properties a VEVENT must have (UID, DTSTAMP, DTSTART); the others may be absent, the summary
  among them, although the declared type of the summary is \<^verbatim>\<open>string\<close>.\<close>

datatype date_type = DATE | DATE_TIME

record IcsDateObject =
  d_date :: jsdate
  d_type :: "date_type option"

record IcsEvent =
  ev_summary :: "string option"
  ev_description :: "string option"
  ev_uid :: string
  ev_created :: "IcsDateObject option"
  ev_stamp :: IcsDateObject
  ev_location :: "string option"
  ev_start :: IcsDateObject
  ev_end :: "IcsDateObject option"
  ev_url :: "string option"

record IcsCalendar =
  prodId :: string
  version :: string
  events :: "IcsEvent list option"

text \<open>A request of \<^verbatim>\<open>requestUrl\<close> and what comes of it: a response with its status and
  text, or a rejected promise.\<close>

record request =
  req_url :: string
  req_method :: string
  req_headers :: "(string \<times> string) list"
  req_body :: "string option"

text \<open>The errors: a rejected request, an error thrown by a library or a built-in, and the
  TypeError of a method called on \<^verbatim>\<open>undefined\<close>.\<close>

datatype error = RequestFailed string | Thrown string | TypeError string

datatype http_outcome = Response nat string | Rejected error

record host =
  uuidv4 :: "nat \<Rightarrow> string"
  moment_now :: "nat \<Rightarrow> int"
  Date_parse :: "string \<Rightarrow> int option"
  format_date :: "jsdate \<Rightarrow> string"
  format_time :: "jsdate \<Rightarrow> string"
  requestUrl :: "nat \<Rightarrow> request \<Rightarrow> http_outcome"
  convertIcsCalendar :: "string \<Rightarrow> error + IcsCalendar"
  generateIcsCalendar :: "IcsCalendar \<Rightarrow> error + string"
  btoa :: "string \<Rightarrow> error + string"
  JSON_stringify :: "string \<Rightarrow> string"

text \<open>\<^verbatim>\<open>new Date(s)\<close> for a string: the host's parse, clipped to the range of a Date.\<close>

definition new_Date :: "host \<Rightarrow> string \<Rightarrow> jsdate" where
  "new_Date h s = (case Date_parse h s of None \<Rightarrow> None | Some t \<Rightarrow> TimeClip t)"

text \<open>A note of the vault: the \<^verbatim>\<open>TFile\<close>, the text \<^verbatim>\<open>vault.read\<close> returns and the
  metadata \<^verbatim>\<open>metadataCache.getFileCache\<close> returns for it.\<close>

record CachedMetadata =
  frontmatter :: "(string \<rightharpoonup> string) option"
  frontmatterPosition_end :: nat

record vault_file =
  path :: string
  basename :: string
  content :: string
  fileCache :: "CachedMetadata option"

text \<open>The three messages shown with \<^verbatim>\<open>new Notice\<close> (the source's texts are Russian): no
  active file to synchronise, a multi-day event is not supported, all events are synchronised.
  And the two lines written with \<^verbatim>\<open>console.error\<close>.\<close>

datatype notice = NoActiveFile | MultiDayNotSupported | AllEventsSynced

datatype log_line = SyncError error | RequestError nat

record plugin_state =
  vault :: "vault_file list"
  created :: "(string \<times> string) list"
  notices :: "notice list"
  console :: "log_line list"
  tick :: nat

subsection \<open>tryCreateObsidianEvent (lines 18-38)\<close>

definition tryCreateObsidianEvent ::
  "string \<Rightarrow> CachedMetadata option \<Rightarrow> string \<Rightarrow> ObsidianEvent option" where
  "tryCreateObsidianEvent filename metadata text =
     (case metadata of
        None \<Rightarrow> None
      | Some md \<Rightarrow>
          (case frontmatter md of
             None \<Rightarrow> None
           | Some fm \<Rightarrow>
               if fm ''type'' = Some ''calendar-event'' then
                 (case fm ''date'' of
                    None \<Rightarrow> None
                  | Some d \<Rightarrow>
                      if d \<noteq> [] then
                        Some \<lparr>date = d,
                              start_time = fm ''start_time'',
                              end_time = fm ''end_time'',
                              summary = filename,
                              description = drop (frontmatterPosition_end md + 1) text,
                              location = fm ''location'',
                              url = fm ''url'',
                              guid = fm ''guid''\<rparr>
                      else None)
               else None))"

subsection \<open>syncEvent (lines 162-227)\<close>

text \<open>Lines 163-185: the ICS event built from the record. The call at \<open>t\<close> reads the clock,
  the call at \<open>t + 1\<close> is \<^verbatim>\<open>uuidv4()\<close>, made only when the record has no guid.\<close>

definition event_uid :: "host \<Rightarrow> nat \<Rightarrow> ObsidianEvent \<Rightarrow> string" where
  "event_uid h t local_event =
     (case guid local_event of
        None \<Rightarrow> uuidv4 h (t + 1) @ ''@obsidian.md''
      | Some g \<Rightarrow> if g \<noteq> [] then g else uuidv4 h (t + 1) @ ''@obsidian.md'')"

definition toIcsEvent :: "host \<Rightarrow> nat \<Rightarrow> ObsidianEvent \<Rightarrow> IcsEvent" where
  "toIcsEvent h t local_event =
     (let now = Some (moment_now h t);
          event = \<lparr>ev_summary = Some (summary local_event),
                   ev_description = Some (description local_event),
                   ev_uid = event_uid h t local_event,
                   ev_created = Some \<lparr>d_date = now, d_type = None\<rparr>,
                   ev_stamp = \<lparr>d_date = now, d_type = None\<rparr>,
                   ev_location = location local_event,
                   ev_start = \<lparr>d_date = None, d_type = None\<rparr>,
                   ev_end = None,
                   ev_url = None\<rparr>
      in if truthy (start_time local_event) then
           (let start = new_Date h (date local_event @ ''T'' @ interpolate (start_time local_event) @ '':00'');
                end' = (if truthy (end_time local_event)
                       then new_Date h (date local_event @ ''T'' @ interpolate (end_time local_event) @ '':00'')
                       else date_plus start 3600000)
            in event\<lparr>ev_start := \<lparr>d_date = start, d_type = Some DATE_TIME\<rparr>,
                     ev_end := Some \<lparr>d_date = end', d_type = Some DATE_TIME\<rparr>\<rparr>)
         else
           (let start = new_Date h (date local_event);
                end' = date_plus start 86400000
            in event\<lparr>ev_start := \<lparr>d_date = start, d_type = Some DATE\<rparr>,
                     ev_end := Some \<lparr>d_date = end', d_type = Some DATE\<rparr>\<rparr>))"

text \<open>Lines 187-195: the calendar sent, the credentials and the address of the event.\<close>

definition calend :: "IcsEvent \<Rightarrow> IcsCalendar" where
  "calend event =
     \<lparr>prodId = ''-//Example Corp.//CalDAV Client//EN'', version = ''2.0'', events = Some [event]\<rparr>"

definition credentials :: "ObsidianCalDAVPluginSettings \<Rightarrow> string" where
  "credentials cfg = yandexUsername cfg @ '':'' @ yandexAppPassword cfg"

definition collection_url :: "ObsidianCalDAVPluginSettings \<Rightarrow> string" where
  "collection_url cfg =
     yandexCalendarUrl cfg @ (if endsWith (yandexCalendarUrl cfg) ''/'' then [] else ''/'')"

text \<open>The two requests, given the value \<open>auth\<close> of \<^verbatim>\<open>btoa\<close> and the text \<open>icsString\<close> of
  \<^verbatim>\<open>generateIcsCalendar\<close>.\<close>

definition put_request ::
  "ObsidianCalDAVPluginSettings \<Rightarrow> IcsEvent \<Rightarrow> string \<Rightarrow> string \<Rightarrow> request" where
  "put_request cfg event auth icsString =
     \<lparr>req_url = collection_url cfg @ ev_uid event,
      req_method = ''PUT'',
      req_headers = [(''Authorization'', ''Basic '' @ auth), (''Content-Type'', ''text/calendar'')],
      req_body = Some icsString\<rparr>"

definition check_request :: "ObsidianCalDAVPluginSettings \<Rightarrow> IcsEvent \<Rightarrow> string \<Rightarrow> request" where
  "check_request cfg event auth =
     \<lparr>req_url = collection_url cfg @ ev_uid event @ ''.ics'',
      req_method = ''PROPFIND'',
      req_headers = [(''Authorization'', ''Basic '' @ auth)],
      req_body = None\<rparr>"

text \<open>\<^verbatim>\<open>status.toString().startsWith("2")\<close>, the test of lines 208, 215 and 245.\<close>

definition status_ok :: "nat \<Rightarrow> bool" where
  "status_ok status = startsWith (toString status) ''2''"

text \<open>\<^verbatim>\<open>calendar.events?.[0]?.url\<close>.\<close>

definition first_event_url :: "IcsCalendar \<Rightarrow> string option" where
  "first_event_url calendar =
     (case events calendar of None \<Rightarrow> None | Some [] \<Rightarrow> None | Some (e # _) \<Rightarrow> ev_url e)"

text \<open>Lines 198-222, the body of the \<^verbatim>\<open>try\<close>: a rejected request or a response text that
  \<^verbatim>\<open>convertIcsCalendar\<close> throws on leaves it with the error (\<open>Inl\<close>); otherwise it
  returns the result and the record, mutated on success only. The PUT is the host call at
  \<open>t + 2\<close>, the PROPFIND the one at \<open>t + 3\<close>.\<close>

definition syncEvent_try ::
  "host \<Rightarrow> ObsidianCalDAVPluginSettings \<Rightarrow> nat \<Rightarrow> ObsidianEvent \<Rightarrow> IcsEvent \<Rightarrow> string \<Rightarrow> string
    \<Rightarrow> error + (bool \<times> ObsidianEvent)" where
  "syncEvent_try h cfg t local_event event auth icsString =
     (case requestUrl h (t + 2) (put_request cfg event auth icsString) of
        Rejected e \<Rightarrow> Inl e
      | Response status_on_put _ \<Rightarrow>
          if status_ok status_on_put then
            (case requestUrl h (t + 3) (check_request cfg event auth) of
               Rejected e \<Rightarrow> Inl e
             | Response status_on_check text_on_check \<Rightarrow>
                 if status_ok status_on_check then
                   (case convertIcsCalendar h text_on_check of
                      Inl e \<Rightarrow> Inl e
                    | Inr calendar \<Rightarrow>
                        Inr (True, local_event\<lparr>guid := Some (ev_uid event),
                                               url := first_event_url calendar\<rparr>))
                 else Inr (False, local_event))
          else Inr (False, local_event))"

text \<open>The whole function. \<^verbatim>\<open>generateIcsCalendar\<close> (line 193) and \<^verbatim>\<open>btoa\<close> (line 194)
  are called before the \<^verbatim>\<open>try\<close>: an error of theirs leaves \<^verbatim>\<open>syncEvent\<close> (\<open>Inl\<close>)
  and no request is sent. An error of the \<^verbatim>\<open>try\<close> is caught, logged and turned into
  false.\<close>

definition syncEvent ::
  "host \<Rightarrow> ObsidianCalDAVPluginSettings \<Rightarrow> ObsidianEvent \<Rightarrow> plugin_state
    \<Rightarrow> (error + (bool \<times> ObsidianEvent)) \<times> plugin_state" where
  "syncEvent h cfg local_event st =
     (let event = toIcsEvent h (tick st) local_event;
          st' = st\<lparr>tick := tick st + 4\<rparr>
      in case generateIcsCalendar h (calend event) of
           Inl e \<Rightarrow> (Inl e, st')
         | Inr icsString \<Rightarrow>
             (case btoa h (credentials cfg) of
                Inl e \<Rightarrow> (Inl e, st')
              | Inr auth \<Rightarrow>
                  (case syncEvent_try h cfg (tick st) local_event event auth icsString of
                     Inl e \<Rightarrow> (Inr (False, local_event), st'\<lparr>console := console st' @ [SyncError e]\<rparr>)
                   | Inr r \<Rightarrow> (Inr r, st'))))"

subsection \<open>syncEventFile and getUUIDFromEventFile (lines 138-156)\<close>

text \<open>\<^verbatim>\<open>fileManager.processFrontMatter(doc, fn)\<close>: the host applies the edit to the note's front
  matter. (It rewrites the note's text as well; the model keeps the text, which no later step of
  a pass reads.)\<close>

definition processFrontMatter ::
  "vault_file \<Rightarrow> ((string \<rightharpoonup> string) \<Rightarrow> (string \<rightharpoonup> string)) \<Rightarrow> vault_file" where
  "processFrontMatter doc fn =
     doc\<lparr>fileCache :=
       map_option (\<lambda>md. md\<lparr>frontmatter := map_option fn (frontmatter md)\<rparr>) (fileCache doc)\<rparr>"

text \<open>A \<^verbatim>\<open>TFile\<close> is the position \<open>i\<close> of the note in the vault. The function ends
  normally (\<open>None\<close>) or with the error that left \<^verbatim>\<open>syncEvent\<close>.\<close>

definition syncEventFile ::
  "host \<Rightarrow> ObsidianCalDAVPluginSettings \<Rightarrow> nat \<Rightarrow> plugin_state \<Rightarrow> error option \<times> plugin_state" where
  "syncEventFile h cfg i st =
     (let doc = vault st ! i in
      case tryCreateObsidianEvent (basename doc) (fileCache doc) (content doc) of
        None \<Rightarrow> (None, st)
      | Some event \<Rightarrow>
          (case syncEvent h cfg event st of
             (Inl e, st') \<Rightarrow> (Some e, st')
           | (Inr (ok, event'), st') \<Rightarrow>
               if ok then
                 (None, st'\<lparr>vault := (vault st')[i := processFrontMatter (vault st' ! i)
                          (\<lambda>fm. fm(''guid'' := guid event', ''url'' := url event'))]\<rparr>)
               else (None, st')))"

definition getUUIDFromEventFile :: "vault_file \<Rightarrow> string" where
  "getUUIDFromEventFile doc =
     (case fileCache doc of
        None \<Rightarrow> []
      | Some md \<Rightarrow> (case frontmatter md of None \<Rightarrow> [] | Some fm \<Rightarrow> or_else (fm ''guid'') []))"

text \<open>The command \<^verbatim>\<open>sync-event\<close> (lines 63-70), on the active file if there is one.\<close>

definition sync_event_command ::
  "host \<Rightarrow> ObsidianCalDAVPluginSettings \<Rightarrow> nat option \<Rightarrow> plugin_state
    \<Rightarrow> error option \<times> plugin_state" where
  "sync_event_command h cfg active st =
     (case active of
        Some i \<Rightarrow> syncEventFile h cfg i st
      | None \<Rightarrow> (None, st\<lparr>notices := notices st @ [NoActiveFile]\<rparr>))"

subsection \<open>fetchCalendar (lines 229-250)\<close>

definition fetch_request :: "ObsidianCalDAVPluginSettings \<Rightarrow> string \<Rightarrow> request" where
  "fetch_request cfg auth =
     \<lparr>req_url = collection_url cfg,
      req_method = ''PROPFIND'',
      req_headers = [(''Authorization'', ''Basic '' @ auth)],
      req_body = None\<rparr>"

text \<open>No \<^verbatim>\<open>try\<close> surrounds anything here: an error of \<^verbatim>\<open>btoa\<close>, a rejected request
  and an error of \<^verbatim>\<open>convertIcsCalendar\<close> leave the function (\<open>Inl\<close>). Otherwise the
  result is the parsed calendar, or \<^verbatim>\<open>undefined\<close> after logging the status.\<close>

definition fetchCalendar ::
  "host \<Rightarrow> ObsidianCalDAVPluginSettings \<Rightarrow> plugin_state
    \<Rightarrow> (error + IcsCalendar option) \<times> plugin_state" where
  "fetchCalendar h cfg st =
     (case btoa h (credentials cfg) of
        Inl e \<Rightarrow> (Inl e, st)
      | Inr auth \<Rightarrow>
          (let st' = st\<lparr>tick := tick st + 1\<rparr> in
           case requestUrl h (tick st) (fetch_request cfg auth) of
             Rejected e \<Rightarrow> (Inl e, st')
           | Response status text \<Rightarrow>
               if status_ok status then
                 (case convertIcsCalendar h text of
                    Inl e \<Rightarrow> (Inl e, st')
                  | Inr calendar \<Rightarrow> (Inr (Some calendar), st'))
               else (Inr None, st'\<lparr>console := console st' @ [RequestError status]\<rparr>)))"

subsection \<open>createFileWithProps (lines 120-136)\<close>

definition newline :: string where
  "newline = [CHR 0x0A]"

fun join :: "string \<Rightarrow> string list \<Rightarrow> string" where
  "join sep [] = []"
| "join sep [x] = x"
| "join sep (x # y # ys) = x @ sep @ join sep (y # ys)"

text \<open>A property value is a string or \<^verbatim>\<open>undefined\<close>; \<^verbatim>\<open>JSON.stringify(undefined)\<close> is
  \<^verbatim>\<open>undefined\<close>, which the template literal prints as such.\<close>

definition prop_line :: "host \<Rightarrow> string \<times> string option \<Rightarrow> string" where
  "prop_line h kv = fst kv @ '': '' @ interpolate (map_option (JSON_stringify h) (snd kv))"

definition md_file :: "host \<Rightarrow> (string \<times> string option) list \<Rightarrow> string \<Rightarrow> string" where
  "md_file h props body =
     ''---'' @ newline @ join newline (map (prop_line h) props) @ newline @ ''---'' @ newline
       @ newline @ body"

text \<open>\<^verbatim>\<open>vault.create(fullPath, md_file)\<close>: the state records the path and the text of every
  note created.\<close>

definition createFileWithProps ::
  "host \<Rightarrow> string \<Rightarrow> string \<Rightarrow> string \<Rightarrow> (string \<times> string option) list \<Rightarrow> plugin_state
    \<Rightarrow> plugin_state" where
  "createFileWithProps h folderPath fileName body props st =
     st\<lparr>created := created st @ [(folderPath @ ''/'' @ fileName @ ''.md'', md_file h props body)]\<rparr>"

subsection \<open>The command sync-all-events (lines 76-116)\<close>

text \<open>Lines 77-79.\<close>

definition md_files :: "ObsidianCalDAVPluginSettings \<Rightarrow> plugin_state \<Rightarrow> nat list" where
  "md_files cfg st =
     filter (\<lambda>i. startsWith (path (vault st ! i)) (eventsDirectory cfg @ ''/''))
       [0 ..< length (vault st)]"

text \<open>Lines 82-86, the callback run for every note: it reads the note's guid, adds it to the set
  when it is not empty, and synchronises the note. The source starts the callbacks of all notes
  together and awaits them all; a callback reads its note's guid before it awaits anything and
  changes no note but its own. The model runs the callbacks in sequence, in the order of the
  list, and writes the front matter as soon as a push succeeds (the source does not await
  \<^verbatim>\<open>processFrontMatter\<close>). When a callback ends with an error, \<^verbatim>\<open>Promise.all\<close> rejects
  with the first such error while the other callbacks still run to their end: the accumulator
  keeps the first error beside the set and the state.\<close>

definition push_file ::
  "host \<Rightarrow> ObsidianCalDAVPluginSettings \<Rightarrow> nat \<Rightarrow> string set \<times> error option \<times> plugin_state
    \<Rightarrow> string set \<times> error option \<times> plugin_state" where
  "push_file h cfg i acc =
     (case acc of
        (my_set, failed, st) \<Rightarrow>
          (let guid = getUUIDFromEventFile (vault st ! i);
               my_set' = (if guid \<noteq> [] then insert guid my_set else my_set)
           in case syncEventFile h cfg i st of
                (e, st') \<Rightarrow> (my_set', (case failed of None \<Rightarrow> e | Some first \<Rightarrow> Some first), st')))"

fun push_files ::
  "host \<Rightarrow> ObsidianCalDAVPluginSettings \<Rightarrow> nat list \<Rightarrow> string set \<times> error option \<times> plugin_state
    \<Rightarrow> string set \<times> error option \<times> plugin_state" where
  "push_files h cfg [] acc = acc"
| "push_files h cfg (i # rest) acc = push_files h cfg rest (push_file h cfg i acc)"

text \<open>\<^verbatim>\<open>summary.replace(/[\/\\:]/g, '_')\<close>.\<close>

definition safeFileName :: "string \<Rightarrow> string" where
  "safeFileName s =
     map (\<lambda>c. if c = CHR ''/'' \<or> c = CHR 0x5C \<or> c = CHR '':'' then CHR ''_'' else c) s"

text \<open>Lines 91-112, the body of the loop over the remote events. It ends normally (\<open>None\<close>) or
  with the TypeError of line 110, where \<^verbatim>\<open>replace\<close> is called on the summary: an event
  without a summary that reaches that line throws, and no note is created for it.\<close>

definition import_event ::
  "host \<Rightarrow> ObsidianCalDAVPluginSettings \<Rightarrow> string set \<Rightarrow> IcsEvent \<Rightarrow> plugin_state
    \<Rightarrow> error option \<times> plugin_state" where
  "import_event h cfg my_set val st =
     (if ev_uid val \<notin> my_set then
        (let startMoment = d_date (ev_start val);
             endMoment = map_option d_date (ev_end val);
             props = [(''type'', Some ''calendar-event''),
                      (''date'', Some (format_date h startMoment)),
                      (''guid'', Some (ev_uid val)),
                      (''url'', ev_url val),
                      (''location'', ev_location val)];
             create = (\<lambda>ps.
               case ev_summary val of
                 None \<Rightarrow> (Some (TypeError ''Cannot read properties of undefined (reading replace)''), st)
               | Some title \<Rightarrow>
                   (None, createFileWithProps h (eventsDirectory cfg) (safeFileName title)
                            (or_else (ev_description val) []) ps st))
         in if d_type (ev_start val) = Some DATE_TIME then
              (let props1 = AList.update ''start_time'' (Some (format_time h startMoment)) props in
               case endMoment of
                 None \<Rightarrow> create props1
               | Some e \<Rightarrow>
                   if format_date h e = format_date h startMoment then
                     create (AList.update ''end_time'' (Some (format_time h e)) props1)
                   else (None, st\<lparr>notices := notices st @ [MultiDayNotSupported]\<rparr>))
            else create props)
      else (None, st))"

text \<open>The loop: an error ends it, with the state reached.\<close>

definition and_then ::
  "error option \<times> plugin_state \<Rightarrow> (plugin_state \<Rightarrow> error option \<times> plugin_state)
    \<Rightarrow> error option \<times> plugin_state" where
  "and_then r f = (case r of (Some e, st) \<Rightarrow> (Some e, st) | (None, st) \<Rightarrow> f st)"

fun import_events ::
  "host \<Rightarrow> ObsidianCalDAVPluginSettings \<Rightarrow> string set \<Rightarrow> IcsEvent list \<Rightarrow> plugin_state
    \<Rightarrow> error option \<times> plugin_state" where
  "import_events h cfg my_set [] st = (None, st)"
| "import_events h cfg my_set (val # rest) st =
     and_then (import_event h cfg my_set val st) (import_events h cfg my_set rest)"

text \<open>Line 114, after the loop.\<close>

definition all_synced :: "plugin_state \<Rightarrow> error option \<times> plugin_state" where
  "all_synced st = (None, st\<lparr>notices := notices st @ [AllEventsSynced]\<rparr>)"

text \<open>The whole callback. It ends normally (\<open>None\<close>) or with the error that nothing caught:
  the first error of the push phase, an error of \<^verbatim>\<open>fetchCalendar\<close>, or the error of the
  loop.\<close>

definition sync_all_events ::
  "host \<Rightarrow> ObsidianCalDAVPluginSettings \<Rightarrow> plugin_state \<Rightarrow> error option \<times> plugin_state" where
  "sync_all_events h cfg st =
     (case push_files h cfg (md_files cfg st) ({}, None, st) of
        (my_set, Some e, st1) \<Rightarrow> (Some e, st1)
      | (my_set, None, st1) \<Rightarrow>
          (case fetchCalendar h cfg st1 of
             (Inl e, st2) \<Rightarrow> (Some e, st2)
           | (Inr None, st2) \<Rightarrow> (None, st2)
           | (Inr (Some calendar), st2) \<Rightarrow>
               (case events calendar of
                  None \<Rightarrow> (None, st2)
                | Some evs \<Rightarrow> and_then (import_events h cfg my_set evs st2) all_synced)))"

section \<open>Notions of the specification\<close>

text \<open>A status code is a three-digit number; the successful ones are 200 to 299.\<close>

definition http_status :: "nat \<Rightarrow> bool" where
  "http_status s = (100 \<le> s \<and> s \<le> 999)"

definition is_2xx :: "nat \<Rightarrow> bool" where
  "is_2xx s = (200 \<le> s \<and> s \<le> 299)"

text \<open>The uid a response body carries: that of its first VEVENT, if it has one.\<close>

definition read_back_uid :: "IcsCalendar \<Rightarrow> string option" where
  "read_back_uid calendar =
     (case events calendar of None \<Rightarrow> None | Some [] \<Rightarrow> None | Some (e # _) \<Rightarrow> Some (ev_uid e))"

text \<open>A remote event is a multi-day timed event when its start is typed DATE-TIME and it has
  an end on another calendar day than its start, as \<^verbatim>\<open>moment\<close> formats the two days.\<close>

definition multi_day_timed :: "host \<Rightarrow> IcsEvent \<Rightarrow> bool" where
  "multi_day_timed h ev =
     (d_type (ev_start ev) = Some DATE_TIME \<and>
      (case ev_end ev of
         None \<Rightarrow> False
       | Some e \<Rightarrow> format_date h (d_date e) \<noteq> format_date h (d_date (ev_start ev))))"

text \<open>A Date is at midnight when its time value is a whole number of days (midnight UTC).\<close>

definition utc_midnight :: "jsdate \<Rightarrow> bool" where
  "utc_midnight d = (case d of None \<Rightarrow> False | Some t \<Rightarrow> t mod 86400000 = 0)"

section \<open>The phases of a full pass\<close>

text \<open>Names for what \<^verbatim>\<open>sync-all-events\<close> has computed on its way: the set of known
  identifiers, the first error and the state when every note has been pushed, and the state when
  the collection has been requested.\<close>

definition known_ids :: "host \<Rightarrow> ObsidianCalDAVPluginSettings \<Rightarrow> plugin_state \<Rightarrow> string set" where
  "known_ids h cfg st = fst (push_files h cfg (md_files cfg st) ({}, None, st))"

definition push_error :: "host \<Rightarrow> ObsidianCalDAVPluginSettings \<Rightarrow> plugin_state \<Rightarrow> error option" where
  "push_error h cfg st = fst (snd (push_files h cfg (md_files cfg st) ({}, None, st)))"

definition pushed :: "host \<Rightarrow> ObsidianCalDAVPluginSettings \<Rightarrow> plugin_state \<Rightarrow> plugin_state" where
  "pushed h cfg st = snd (snd (push_files h cfg (md_files cfg st) ({}, None, st)))"

definition fetched :: "host \<Rightarrow> ObsidianCalDAVPluginSettings \<Rightarrow> plugin_state \<Rightarrow> plugin_state" where
  "fetched h cfg st = (pushed h cfg st)\<lparr>tick := tick (pushed h cfg st) + 1\<rparr>"

section \<open>Example inputs\<close>

text \<open>A host in which every request succeeds: the PUT with 201, the PROPFIND of an event with
  207 and a body that parses to one VEVENT, the PROPFIND of the collection with 207 and a body
  that parses to four. The first of May 2024 starts 1714521600000 ms after the epoch, which is
  day 19844.\<close>

definition example_parse :: "string \<Rightarrow> int option" where
  "example_parse s =
     (if s = ''2024-05-01T10:00:00'' then Some 1714557600000
      else if s = ''2024-05-01T11:30:00'' then Some 1714563000000
      else if s = ''2024-05-01'' then Some 1714521600000
      else None)"

definition example_format_date :: "jsdate \<Rightarrow> string" where
  "example_format_date d =
     (case d of
        None \<Rightarrow> ''Invalid date''
      | Some t \<Rightarrow>
          if t div 86400000 = 19844 then ''2024-05-01''
          else if t div 86400000 = 19845 then ''2024-05-02''
          else if t div 86400000 = 19847 then ''2024-05-04''
          else ''1970-01-01'')"

definition example_format_time :: "jsdate \<Rightarrow> string" where
  "example_format_time d =
     (case d of
        None \<Rightarrow> ''Invalid date''
      | Some t \<Rightarrow>
          if t mod 86400000 = 36000000 then ''10:00''
          else if t mod 86400000 = 39600000 then ''11:00''
          else ''00:00'')"

definition remote_event :: "string \<Rightarrow> string \<Rightarrow> date_type \<Rightarrow> int \<Rightarrow> int \<Rightarrow> IcsEvent" where
  "remote_event uid title ty start end' =
     \<lparr>ev_summary = Some title, ev_description = None, ev_uid = uid, ev_created = None,
      ev_stamp = \<lparr>d_date = Some 1714550000000, d_type = None\<rparr>,
      ev_location = None,
      ev_start = \<lparr>d_date = Some start, d_type = Some ty\<rparr>,
      ev_end = Some \<lparr>d_date = Some end', d_type = Some ty\<rparr>,
      ev_url = Some (''https://cal.example/'' @ uid)\<rparr>"

definition review_event :: IcsEvent where
  "review_event = remote_event ''srv-77'' ''Review'' DATE 1714521600000 1714608000000"

definition conference_event :: IcsEvent where
  "conference_event = remote_event ''conf-1'' ''Conference'' DATE_TIME 1714557600000 1714644000000"

definition trip_event :: IcsEvent where
  "trip_event = remote_event ''trip-9'' ''Trip: Kazan/Moscow'' DATE 1714521600000 1714780800000"

definition call_event :: IcsEvent where
  "call_event = remote_event ''call-3'' ''Call'' DATE_TIME 1714557600000 1714561200000"

text \<open>An all-day event without a summary.\<close>

definition untitled_event :: IcsEvent where
  "untitled_event =
     (remote_event ''anon-5'' [] DATE 1714521600000 1714608000000)\<lparr>ev_summary := None\<rparr>"

text \<open>The parser of the example: it knows three texts and throws on every other.\<close>

definition example_convert :: "string \<Rightarrow> error + IcsCalendar" where
  "example_convert body =
     (if body = ''collection'' then
        Inr \<lparr>prodId = ''-//Example Corp.//CalDAV Client//EN'', version = ''2.0'',
             events = Some [review_event, conference_event, trip_event, call_event]\<rparr>
      else if body = ''event'' then
        Inr \<lparr>prodId = ''-//Example Corp.//CalDAV Client//EN'', version = ''2.0'',
             events = Some [review_event]\<rparr>
      else if body = ''untitled'' then
        Inr \<lparr>prodId = ''-//Example Corp.//CalDAV Client//EN'', version = ''2.0'',
             events = Some [untitled_event]\<rparr>
      else Inl (Thrown ''cannot parse''))"

definition example_requestUrl :: "nat \<Rightarrow> request \<Rightarrow> http_outcome" where
  "example_requestUrl n req =
     (if req_method req = ''PUT'' then Response 201 []
      else if req_url req = ''https://caldav.example/cal/'' then Response 207 ''collection''
      else Response 207 ''event'')"

definition example_host :: host where
  "example_host =
     \<lparr>uuidv4 = (\<lambda>n. ''3f2a9c1e-7b4d-4e8a-9c57-0d1b2a3c4d5e''),
      moment_now = (\<lambda>n. 1714550000000),
      Date_parse = example_parse,
      format_date = example_format_date,
      format_time = example_format_time,
      requestUrl = example_requestUrl,
      convertIcsCalendar = example_convert,
      generateIcsCalendar = (\<lambda>c. Inr ''BEGIN:VCALENDAR''),
      btoa = (\<lambda>s. Inr s),
      JSON_stringify = (\<lambda>s. [CHR 0x22] @ s @ [CHR 0x22])\<rparr>"

text \<open>The same host with a server that refuses every PUT with 500, and with no network at all.\<close>

definition refusing_host :: host where
  "refusing_host =
     example_host\<lparr>requestUrl :=
       (\<lambda>n req. if req_method req = ''PUT'' then Response 500 [] else example_requestUrl n req)\<rparr>"

definition offline_host :: host where
  "offline_host =
     example_host\<lparr>requestUrl := (\<lambda>n req. Rejected (RequestFailed ''net::ERR_INTERNET_DISCONNECTED''))\<rparr>"

text \<open>A host whose server answers the PROPFIND of an event with 207 and a text the parser throws
  on, one whose collection holds the event without a summary, and one whose
  \<^verbatim>\<open>generateIcsCalendar\<close> throws on an Invalid Date.\<close>

definition garbling_host :: host where
  "garbling_host =
     example_host\<lparr>requestUrl :=
       (\<lambda>n req. if req_method req = ''PUT'' then Response 201 [] else Response 207 ''garbage'')\<rparr>"

definition untitled_host :: host where
  "untitled_host =
     example_host\<lparr>requestUrl :=
       (\<lambda>n req. if req_url req = ''https://caldav.example/cal/'' then Response 207 ''untitled''
                 else example_requestUrl n req)\<rparr>"

definition strict_host :: host where
  "strict_host =
     example_host\<lparr>generateIcsCalendar :=
       (\<lambda>c. case events c of
               Some [e] \<Rightarrow> if d_date (ev_start e) = None then Inl (Thrown ''Invalid time value'')
                            else Inr ''BEGIN:VCALENDAR''
             | _ \<Rightarrow> Inr ''BEGIN:VCALENDAR'')\<rparr>"

text \<open>A host whose collection answers 404.\<close>

definition missing_collection_host :: host where
  "missing_collection_host =
     example_host\<lparr>requestUrl :=
       (\<lambda>n req. if req_url req = ''https://caldav.example/cal/'' then Response 404 []
                 else example_requestUrl n req)\<rparr>"

definition example_settings :: ObsidianCalDAVPluginSettings where
  "example_settings =
     \<lparr>eventsDirectory = ''Calendar'', yandexUsername = ''user'', yandexAppPassword = ''secret'',
      yandexCalendarUrl = ''https://caldav.example/cal''\<rparr>"

definition example_record :: ObsidianEvent where
  "example_record =
     \<lparr>date = ''2024-05-01'', start_time = Some ''10:00'', end_time = None, summary = ''Standup'',
      description = ''Daily'', location = None, url = None, guid = None\<rparr>"

text \<open>A vault of three notes: an event never synchronised, a note outside the events directory,
  and an event that has the guid \<^verbatim>\<open>srv-77\<close> already.\<close>

definition standup_note :: vault_file where
  "standup_note =
     \<lparr>path = ''Calendar/Standup.md'', basename = ''Standup'',
      content = ''---'' @ newline @ ''type: calendar-event'' @ newline @ ''date: 2024-05-01''
        @ newline @ ''start_time: 10:00'' @ newline @ ''---'' @ newline @ ''Daily'',
      fileCache = Some \<lparr>frontmatter = Some [''type'' \<mapsto> ''calendar-event'',
                            ''date'' \<mapsto> ''2024-05-01'', ''start_time'' \<mapsto> ''10:00''],
                        frontmatterPosition_end = 63\<rparr>\<rparr>"

definition todo_note :: vault_file where
  "todo_note =
     \<lparr>path = ''Inbox/todo.md'', basename = ''todo'', content = ''buy milk'', fileCache = None\<rparr>"

definition review_note :: vault_file where
  "review_note =
     \<lparr>path = ''Calendar/Review.md'', basename = ''Review'', content = [],
      fileCache = Some \<lparr>frontmatter = Some [''type'' \<mapsto> ''calendar-event'',
                            ''date'' \<mapsto> ''2024-05-01'', ''guid'' \<mapsto> ''srv-77''],
                        frontmatterPosition_end = 0\<rparr>\<rparr>"

definition example_state :: plugin_state where
  "example_state =
     \<lparr>vault = [standup_note, todo_note, review_note], created = [], notices = [], console = [],
      tick = 0\<rparr>"

section \<open>Properties\<close>

subsection \<open>The status test\<close>

lemma digit_char_eq_2:
  assumes "d < 10"
  shows "(digit_char d = CHR ''2'') = (d = 2)"
proof -
  have "(digit_char d = CHR ''2'') = (of_char (digit_char d) = (of_char CHR ''2'' :: nat))"
    by (simp only: of_char_eq_iff)
  also have "\<dots> = ((48 + d) mod 256 = 50)"
    by (simp add: digit_char_def)
  also have "\<dots> = (d = 2)"
    using assms by auto
  finally show ?thesis .
qed

lemma toString_three_digits:
  assumes "100 \<le> s" "s < 1000"
  shows "toString s = [digit_char (s div 100), digit_char (s div 10 mod 10), digit_char (s mod 10)]"
proof -
  have a: "toString s = toString (s div 10) @ [digit_char (s mod 10)]"
    using assms by (simp add: toString.simps[of s])
  have "\<not> s div 10 < 10"
    using assms by linarith
  then have b: "toString (s div 10) = toString (s div 10 div 10) @ [digit_char (s div 10 mod 10)]"
    by (simp add: toString.simps[of "s div 10"])
  have d: "s div 10 div 10 = s div 100"
    by (simp add: div_mult2_eq)
  have "s div 100 < 10"
    using assms by linarith
  then have c: "toString (s div 100) = [digit_char (s div 100)]"
    by (simp add: toString.simps[of "s div 100"])
  show ?thesis
    using a b c d by simp
qed

text \<open>On the status codes of HTTP the test of the source is the test for 200 to 299.\<close>

lemma status_ok_three_digits:
  assumes "100 \<le> s" "s < 1000"
  shows "status_ok s = (200 \<le> s \<and> s < 300)"
proof -
  have "s div 100 < 10"
    using assms by linarith
  then have "status_ok s = (s div 100 = 2)"
    using assms by (simp add: status_ok_def startsWith_def toString_three_digits digit_char_eq_2)
  also have "\<dots> = (200 \<le> s \<and> s < 300)"
    by linarith
  finally show ?thesis .
qed

lemma status_ok_iff_is_2xx: "http_status s \<Longrightarrow> status_ok s = is_2xx s"
  by (auto simp: http_status_def is_2xx_def status_ok_three_digits)

lemma is_2xx_status_ok: "is_2xx s \<Longrightarrow> status_ok s"
  by (simp add: is_2xx_def status_ok_three_digits)

subsection \<open>The mapping of a record to an ICS event\<close>

lemma new_Date_valid: "new_Date h s = Some t \<Longrightarrow> \<bar>t\<bar> \<le> 8640000000000000"
  by (auto simp: new_Date_def TimeClip_def split: option.splits if_splits)

text \<open>
  C7. A record with a non-empty guid is mapped to an event with that guid as its uid, whatever
  the host's generator would return; a record whose guid is absent or empty gets the uid
  \<^verbatim>\<open>uuidv4()\<close> followed by \<^verbatim>\<open>@obsidian.md\<close>.
\<close>

theorem uid_reused_or_generated:
  "(\<forall>g. guid r = Some g \<and> g \<noteq> [] \<longrightarrow> ev_uid (toIcsEvent h t r) = g) \<and>
   (guid r = None \<or> guid r = Some [] \<longrightarrow>
      ev_uid (toIcsEvent h t r) = uuidv4 h (t + 1) @ ''@obsidian.md'')"
  by (auto simp: toIcsEvent_def event_uid_def Let_def)

theorem uid_reused_or_generated_witness:
  "ev_uid (toIcsEvent example_host 0 (example_record\<lparr>guid := Some ''note-1@obsidian.md''\<rparr>))
     = ''note-1@obsidian.md'' \<and>
   ev_uid (toIcsEvent example_host 0 example_record)
     = ''3f2a9c1e-7b4d-4e8a-9c57-0d1b2a3c4d5e@obsidian.md''"
  using uid_reused_or_generated [of "example_record\<lparr>guid := Some ''note-1@obsidian.md''\<rparr>" example_host 0]
    uid_reused_or_generated [of example_record example_host 0]
  by (simp add: example_record_def example_host_def)

text \<open>
  C8. A record with a start time and no end time is mapped to an event whose start and end are
  both typed DATE-TIME; the start is the Date of the record's date and start time, and the end
  is the Date one hour (3600000 ms) after the start: for every start instant \<open>t0\<close> that
  leaves an hour below the largest time value of a Date, the end is exactly \<open>t0 + 3600000\<close>.
  (An Invalid Date as start gives an Invalid Date as end.)
\<close>

theorem timed_event_defaults_to_one_hour:
  assumes "truthy (start_time r)" and "\<not> truthy (end_time r)"
  shows "ev_start (toIcsEvent h t r) =
           \<lparr>d_date = new_Date h (date r @ ''T'' @ interpolate (start_time r) @ '':00''),
            d_type = Some DATE_TIME\<rparr> \<and>
         ev_end (toIcsEvent h t r) =
           Some \<lparr>d_date = date_plus (d_date (ev_start (toIcsEvent h t r))) 3600000,
                 d_type = Some DATE_TIME\<rparr> \<and>
         (\<forall>t0. d_date (ev_start (toIcsEvent h t r)) = Some t0 \<and> t0 + 3600000 \<le> 8640000000000000 \<longrightarrow>
            ev_end (toIcsEvent h t r) = Some \<lparr>d_date = Some (t0 + 3600000), d_type = Some DATE_TIME\<rparr>)"
proof -
  have s: "ev_start (toIcsEvent h t r) =
           \<lparr>d_date = new_Date h (date r @ ''T'' @ interpolate (start_time r) @ '':00''),
            d_type = Some DATE_TIME\<rparr>"
    using assms by (simp add: toIcsEvent_def Let_def)
  have e: "ev_end (toIcsEvent h t r) =
           Some \<lparr>d_date = date_plus (d_date (ev_start (toIcsEvent h t r))) 3600000,
                 d_type = Some DATE_TIME\<rparr>"
    using assms by (simp add: toIcsEvent_def Let_def)
  have "date_plus (Some t0) 3600000 = Some (t0 + 3600000)"
    if "d_date (ev_start (toIcsEvent h t r)) = Some t0" "t0 + 3600000 \<le> 8640000000000000" for t0
  proof -
    have "\<bar>t0\<bar> \<le> 8640000000000000"
      using that(1) s new_Date_valid by simp
    then show ?thesis
      using that(2) by (simp add: date_plus_def TimeClip_def)
  qed
  with s e show ?thesis
    by simp
qed

theorem timed_event_defaults_to_one_hour_witness:
  "truthy (start_time example_record) \<and> \<not> truthy (end_time example_record) \<and>
   ev_start (toIcsEvent example_host 0 example_record) =
     \<lparr>d_date = Some 1714557600000, d_type = Some DATE_TIME\<rparr> \<and>
   ev_end (toIcsEvent example_host 0 example_record) =
     Some \<lparr>d_date = Some 1714561200000, d_type = Some DATE_TIME\<rparr>"
  using timed_event_defaults_to_one_hour [of example_record example_host 0]
  by (simp add: example_record_def example_host_def example_parse_def truthy_def interpolate_def
      new_Date_def TimeClip_def toIcsEvent_def date_plus_def Let_def)

text \<open>
  C9, as amended. A record without a start time is mapped to an event whose start and end are
  both typed DATE. The start is the Date the constructor gives for the record's date string
  alone, at whatever time of day that is, and the end is the Date one day (86400000 ms) after
  the start: for every start instant \<open>t0\<close> that leaves a day below the largest time value
  of a Date, the end is exactly \<open>t0 + 86400000\<close>. When the constructor gives a midnight for
  the date string, the start is that midnight and the end the next one. Start and end depend
  on no other field: two such records with the same date get the same.
\<close>

theorem all_day_event_spans_one_day:
  assumes "\<not> truthy (start_time r)"
  shows "ev_start (toIcsEvent h t r) = \<lparr>d_date = new_Date h (date r), d_type = Some DATE\<rparr> \<and>
         ev_end (toIcsEvent h t r) =
           Some \<lparr>d_date = date_plus (new_Date h (date r)) 86400000, d_type = Some DATE\<rparr> \<and>
         (\<forall>t0. new_Date h (date r) = Some t0 \<and> t0 + 86400000 \<le> 8640000000000000 \<longrightarrow>
            ev_end (toIcsEvent h t r) = Some \<lparr>d_date = Some (t0 + 86400000), d_type = Some DATE\<rparr>) \<and>
         (\<forall>t0. new_Date h (date r) = Some t0 \<and> t0 + 86400000 \<le> 8640000000000000 \<and>
               utc_midnight (Some t0) \<longrightarrow>
            utc_midnight (d_date (ev_start (toIcsEvent h t r))) \<and>
            utc_midnight (Some (t0 + 86400000))) \<and>
         (\<forall>r' t'. \<not> truthy (start_time r') \<and> date r' = date r \<longrightarrow>
            ev_start (toIcsEvent h t' r') = ev_start (toIcsEvent h t r) \<and>
            ev_end (toIcsEvent h t' r') = ev_end (toIcsEvent h t r))"
proof -
  have shape: "ev_start (toIcsEvent h t' r') = \<lparr>d_date = new_Date h (date r'), d_type = Some DATE\<rparr> \<and>
      ev_end (toIcsEvent h t' r') =
        Some \<lparr>d_date = date_plus (new_Date h (date r')) 86400000, d_type = Some DATE\<rparr>"
    if "\<not> truthy (start_time r')" for r' t'
    using that by (simp add: toIcsEvent_def Let_def)
  have day: "date_plus (new_Date h (date r)) 86400000 = Some (t0 + 86400000)"
    if "new_Date h (date r) = Some t0" "t0 + 86400000 \<le> 8640000000000000" for t0
  proof -
    have "\<bar>t0\<bar> \<le> 8640000000000000"
      using that(1) by (rule new_Date_valid)
    then show ?thesis
      using that by (simp add: date_plus_def TimeClip_def)
  qed
  have next_midnight: "utc_midnight (Some (t0 + 86400000))" if "utc_midnight (Some t0)" for t0
    using that by (simp add: utc_midnight_def)
  show ?thesis
    using shape [OF assms] shape day next_midnight by simp
qed

theorem all_day_event_spans_one_day_witness:
  "\<not> truthy (start_time (example_record\<lparr>start_time := None, end_time := Some ''11:30''\<rparr>)) \<and>
   new_Date example_host (date (example_record\<lparr>start_time := None, end_time := Some ''11:30''\<rparr>))
     = Some 1714521600000 \<and>
   utc_midnight (Some 1714521600000) \<and>
   ev_start (toIcsEvent example_host 0 (example_record\<lparr>start_time := None, end_time := Some ''11:30''\<rparr>))
     = \<lparr>d_date = Some 1714521600000, d_type = Some DATE\<rparr> \<and>
   ev_end (toIcsEvent example_host 0 (example_record\<lparr>start_time := None, end_time := Some ''11:30''\<rparr>))
     = Some \<lparr>d_date = Some 1714608000000, d_type = Some DATE\<rparr> \<and>
   utc_midnight (Some 1714608000000)"
  using all_day_event_spans_one_day
    [of "example_record\<lparr>start_time := None, end_time := Some ''11:30''\<rparr>" example_host 0]
  by (simp add: example_record_def example_host_def example_parse_def truthy_def
      new_Date_def TimeClip_def toIcsEvent_def date_plus_def utc_midnight_def Let_def)

text \<open>
  C9 as stated fails: the start is not at midnight when the record's date carries a time of
  day. The record has the date \<^verbatim>\<open>2024-05-01T10:00:00\<close> and no start time (line 22 accepts
  every non-empty date); its event is typed DATE and starts at ten o'clock.
\<close>

theorem all_day_start_not_at_midnight_counterexample:
  "tryCreateObsidianEvent ''Standup''
     (Some \<lparr>frontmatter = Some [''type'' \<mapsto> ''calendar-event'', ''date'' \<mapsto> ''2024-05-01T10:00:00''],
            frontmatterPosition_end = 0\<rparr>) []
     = Some \<lparr>date = ''2024-05-01T10:00:00'', start_time = None, end_time = None,
             summary = ''Standup'', description = [], location = None, url = None, guid = None\<rparr> \<and>
   \<not> truthy None \<and>
   ev_start (toIcsEvent example_host 0
      \<lparr>date = ''2024-05-01T10:00:00'', start_time = None, end_time = None,
       summary = ''Standup'', description = [], location = None, url = None, guid = None\<rparr>)
     = \<lparr>d_date = Some 1714557600000, d_type = Some DATE\<rparr> \<and>
   \<not> utc_midnight (Some 1714557600000) \<and>
   format_time example_host (Some 1714557600000) = ''10:00''"
  by (simp add: tryCreateObsidianEvent_def truthy_def toIcsEvent_def Let_def new_Date_def
      TimeClip_def example_host_def example_parse_def example_format_time_def utc_midnight_def)

subsection \<open>The push of one event\<close>

lemma syncEvent_try_put_rejected:
  "requestUrl h (t + 2) (put_request cfg ev a ics) = Rejected e \<Longrightarrow>
   syncEvent_try h cfg t r ev a ics = Inl e"
  by (simp add: syncEvent_try_def)

lemma syncEvent_try_put_refused:
  "requestUrl h (t + 2) (put_request cfg ev a ics) = Response s b \<Longrightarrow> \<not> status_ok s \<Longrightarrow>
   syncEvent_try h cfg t r ev a ics = Inr (False, r)"
  by (simp add: syncEvent_try_def)

lemma syncEvent_try_check_rejected:
  "requestUrl h (t + 2) (put_request cfg ev a ics) = Response s b \<Longrightarrow> status_ok s \<Longrightarrow>
   requestUrl h (t + 3) (check_request cfg ev a) = Rejected e \<Longrightarrow>
   syncEvent_try h cfg t r ev a ics = Inl e"
  by (simp add: syncEvent_try_def)

lemma syncEvent_try_check_refused:
  "requestUrl h (t + 2) (put_request cfg ev a ics) = Response s b \<Longrightarrow> status_ok s \<Longrightarrow>
   requestUrl h (t + 3) (check_request cfg ev a) = Response s' b' \<Longrightarrow> \<not> status_ok s' \<Longrightarrow>
   syncEvent_try h cfg t r ev a ics = Inr (False, r)"
  by (simp add: syncEvent_try_def)

lemma syncEvent_try_unparsed:
  "requestUrl h (t + 2) (put_request cfg ev a ics) = Response s b \<Longrightarrow> status_ok s \<Longrightarrow>
   requestUrl h (t + 3) (check_request cfg ev a) = Response s' b' \<Longrightarrow> status_ok s' \<Longrightarrow>
   convertIcsCalendar h b' = Inl e \<Longrightarrow>
   syncEvent_try h cfg t r ev a ics = Inl e"
  by (simp add: syncEvent_try_def)

lemma syncEvent_try_verified:
  "requestUrl h (t + 2) (put_request cfg ev a ics) = Response s b \<Longrightarrow> status_ok s \<Longrightarrow>
   requestUrl h (t + 3) (check_request cfg ev a) = Response s' b' \<Longrightarrow> status_ok s' \<Longrightarrow>
   convertIcsCalendar h b' = Inr calendar \<Longrightarrow>
   syncEvent_try h cfg t r ev a ics =
     Inr (True, r\<lparr>guid := Some (ev_uid ev), url := first_event_url calendar\<rparr>)"
  by (simp add: syncEvent_try_def)

lemma fst_syncEvent:
  assumes "generateIcsCalendar h (calend (toIcsEvent h (tick st) r)) = Inr ics"
    and "btoa h (credentials cfg) = Inr a"
  shows "fst (syncEvent h cfg r st) =
     Inr (case syncEvent_try h cfg (tick st) r (toIcsEvent h (tick st) r) a ics of
            Inl e \<Rightarrow> (False, r) | Inr res \<Rightarrow> res)"
  using assms by (simp add: syncEvent_def Let_def split: sum.splits)

lemma snd_syncEvent_frame:
  "vault (snd (syncEvent h cfg r st)) = vault st \<and>
   created (snd (syncEvent h cfg r st)) = created st \<and>
   notices (snd (syncEvent h cfg r st)) = notices st \<and>
   tick (snd (syncEvent h cfg r st)) = tick st + 4"
  by (simp add: syncEvent_def Let_def split: sum.splits)

lemma syncEventFile_unchanged:
  assumes "fst (syncEvent h cfg r st) = Inr (False, r')"
    and "tryCreateObsidianEvent (basename (vault st ! i)) (fileCache (vault st ! i))
           (content (vault st ! i)) = Some r"
  shows "fst (syncEventFile h cfg i st) = None \<and> vault (snd (syncEventFile h cfg i st)) = vault st"
proof -
  obtain st' where s: "syncEvent h cfg r st = (Inr (False, r'), st')"
    using assms(1) by (metis prod.collapse)
  then have "vault st' = vault st"
    using snd_syncEvent_frame [of h cfg r st] by simp
  then show ?thesis
    using assms(2) s by (simp add: syncEventFile_def Let_def)
qed

text \<open>
  C3. When the PUT is rejected, or answered with a status code that is not 200 to 299, or
  accepted while the PROPFIND that follows is rejected or answered with such a status code,
  \<^verbatim>\<open>syncEvent\<close> returns false with the record as it was: the error of a rejection is caught,
  the result is a value (\<open>Inr\<close>), not an error. Then \<^verbatim>\<open>syncEventFile\<close> ends normally and
  leaves the front matter of every note as it was. The PUT is the request sent with the text
  \<open>ics\<close> of \<^verbatim>\<open>generateIcsCalendar\<close> and the value \<open>a\<close> of \<^verbatim>\<open>btoa\<close>.
\<close>

theorem failed_push_leaves_record:
  assumes "generateIcsCalendar h (calend (toIcsEvent h (tick st) r)) = Inr ics"
    and "btoa h (credentials cfg) = Inr a"
    and "(\<exists>e. requestUrl h (tick st + 2) (put_request cfg (toIcsEvent h (tick st) r) a ics) = Rejected e) \<or>
         (\<exists>s b. requestUrl h (tick st + 2) (put_request cfg (toIcsEvent h (tick st) r) a ics) = Response s b \<and>
                http_status s \<and> \<not> is_2xx s) \<or>
         (\<exists>s b. requestUrl h (tick st + 2) (put_request cfg (toIcsEvent h (tick st) r) a ics) = Response s b \<and>
                is_2xx s \<and>
                ((\<exists>e. requestUrl h (tick st + 3) (check_request cfg (toIcsEvent h (tick st) r) a) = Rejected e) \<or>
                 (\<exists>s' b'. requestUrl h (tick st + 3) (check_request cfg (toIcsEvent h (tick st) r) a)
                            = Response s' b' \<and> http_status s' \<and> \<not> is_2xx s')))"
  shows "fst (syncEvent h cfg r st) = Inr (False, r) \<and>
         (tryCreateObsidianEvent (basename (vault st ! i)) (fileCache (vault st ! i))
            (content (vault st ! i)) = Some r \<longrightarrow>
          fst (syncEventFile h cfg i st) = None \<and>
          vault (snd (syncEventFile h cfg i st)) = vault st)"
proof -
  let ?ev = "toIcsEvent h (tick st) r"
  let ?put = "requestUrl h (tick st + 2) (put_request cfg ?ev a ics)"
  let ?check = "requestUrl h (tick st + 3) (check_request cfg ?ev a)"
  note f = fst_syncEvent [OF assms(1,2)]
  from assms(3) consider
      (put_rejected) e where "?put = Rejected e"
    | (put_refused) s b where "?put = Response s b" "http_status s" "\<not> is_2xx s"
    | (check_rejected) s b e where "?put = Response s b" "is_2xx s" "?check = Rejected e"
    | (check_refused) s b s' b' where "?put = Response s b" "is_2xx s" "?check = Response s' b'"
        "http_status s'" "\<not> is_2xx s'"
    by blast
  then have "fst (syncEvent h cfg r st) = Inr (False, r)"
  proof cases
    case put_rejected
    then show ?thesis
      by (simp add: f syncEvent_try_put_rejected)
  next
    case put_refused
    then have "\<not> status_ok s"
      by (simp add: status_ok_iff_is_2xx)
    with put_refused show ?thesis
      by (simp add: f syncEvent_try_put_refused)
  next
    case check_rejected
    then have "status_ok s"
      by (simp add: is_2xx_status_ok)
    with check_rejected show ?thesis
      by (simp add: f syncEvent_try_check_rejected)
  next
    case check_refused
    then have "status_ok s" "\<not> status_ok s'"
      by (simp_all add: is_2xx_status_ok status_ok_iff_is_2xx)
    with check_refused show ?thesis
      by (simp add: f syncEvent_try_check_refused)
  qed
  then show ?thesis
    using syncEventFile_unchanged by blast
qed

lemma example_generate:
  "generateIcsCalendar example_host c = Inr ''BEGIN:VCALENDAR''"
  "generateIcsCalendar refusing_host c = Inr ''BEGIN:VCALENDAR''"
  "generateIcsCalendar offline_host c = Inr ''BEGIN:VCALENDAR''"
  "generateIcsCalendar garbling_host c = Inr ''BEGIN:VCALENDAR''"
  "generateIcsCalendar untitled_host c = Inr ''BEGIN:VCALENDAR''"
  "generateIcsCalendar missing_collection_host c = Inr ''BEGIN:VCALENDAR''"
  by (simp_all add: example_host_def refusing_host_def offline_host_def garbling_host_def
      untitled_host_def missing_collection_host_def)

lemma example_btoa:
  "btoa example_host x = Inr x"
  "btoa refusing_host x = Inr x"
  "btoa offline_host x = Inr x"
  "btoa garbling_host x = Inr x"
  "btoa untitled_host x = Inr x"
  "btoa missing_collection_host x = Inr x"
  by (simp_all add: example_host_def refusing_host_def offline_host_def garbling_host_def
      untitled_host_def missing_collection_host_def)

lemma example_standup_record:
  "tryCreateObsidianEvent (basename (vault example_state ! 0)) (fileCache (vault example_state ! 0))
     (content (vault example_state ! 0)) = Some example_record"
  by (simp add: example_state_def standup_note_def tryCreateObsidianEvent_def example_record_def
      newline_def)

theorem failed_push_leaves_record_witness:
  "generateIcsCalendar refusing_host
     (calend (toIcsEvent refusing_host (tick example_state) example_record)) = Inr ''BEGIN:VCALENDAR'' \<and>
   btoa refusing_host (credentials example_settings) = Inr ''user:secret'' \<and>
   requestUrl refusing_host (tick example_state + 2)
     (put_request example_settings (toIcsEvent refusing_host (tick example_state) example_record)
        ''user:secret'' ''BEGIN:VCALENDAR'')
     = Response 500 [] \<and>
   http_status 500 \<and> \<not> is_2xx 500 \<and>
   tryCreateObsidianEvent (basename (vault example_state ! 0)) (fileCache (vault example_state ! 0))
     (content (vault example_state ! 0)) = Some example_record \<and>
   fst (syncEvent refusing_host example_settings example_record example_state) = Inr (False, example_record) \<and>
   fst (syncEventFile refusing_host example_settings 0 example_state) = None \<and>
   vault (snd (syncEventFile refusing_host example_settings 0 example_state)) = vault example_state"
proof -
  have gen: "generateIcsCalendar refusing_host
     (calend (toIcsEvent refusing_host (tick example_state) example_record)) = Inr ''BEGIN:VCALENDAR''"
    by (rule example_generate)
  have auth: "btoa refusing_host (credentials example_settings) = Inr ''user:secret''"
    by (simp add: example_btoa credentials_def example_settings_def)
  have put: "requestUrl refusing_host (tick example_state + 2)
     (put_request example_settings (toIcsEvent refusing_host (tick example_state) example_record)
        ''user:secret'' ''BEGIN:VCALENDAR'') = Response 500 []"
    by (simp add: refusing_host_def example_host_def put_request_def)
  have st: "http_status 500" "\<not> is_2xx 500"
    by (simp_all add: http_status_def is_2xx_def)
  show ?thesis
    using failed_push_leaves_record [OF gen auth, of 0] put st example_standup_record gen auth
    by blast
qed

text \<open>
  C1, as amended. When the PUT is answered with a status from 200 to 299 and the PROPFIND of
  the event as well, and \<^verbatim>\<open>convertIcsCalendar\<close> returns a calendar for the text of that
  response, \<^verbatim>\<open>syncEvent\<close> returns true; the record's guid becomes the uid that was sent (its
  own guid, or the generated one) and its url becomes the url of the first VEVENT of the
  calendar, absent when the calendar has none. When \<^verbatim>\<open>convertIcsCalendar\<close> throws on that
  text, the error is caught and \<^verbatim>\<open>syncEvent\<close> returns false with the record as it was.
\<close>

theorem verified_push_sets_guid_and_url:
  assumes "generateIcsCalendar h (calend (toIcsEvent h (tick st) r)) = Inr ics"
    and "btoa h (credentials cfg) = Inr a"
    and "requestUrl h (tick st + 2) (put_request cfg (toIcsEvent h (tick st) r) a ics) = Response s b"
    and "is_2xx s"
    and "requestUrl h (tick st + 3) (check_request cfg (toIcsEvent h (tick st) r) a) = Response s' b'"
    and "is_2xx s'"
  shows "(\<forall>calendar. convertIcsCalendar h b' = Inr calendar \<longrightarrow>
            fst (syncEvent h cfg r st) =
              Inr (True, r\<lparr>guid := Some (ev_uid (toIcsEvent h (tick st) r)),
                           url := first_event_url calendar\<rparr>)) \<and>
         (\<forall>calendar e es. convertIcsCalendar h b' = Inr calendar \<and> events calendar = Some (e # es) \<longrightarrow>
            fst (syncEvent h cfg r st) =
              Inr (True, r\<lparr>guid := Some (ev_uid (toIcsEvent h (tick st) r)), url := ev_url e\<rparr>)) \<and>
         (\<forall>e. convertIcsCalendar h b' = Inl e \<longrightarrow> fst (syncEvent h cfg r st) = Inr (False, r))"
proof -
  note f = fst_syncEvent [OF assms(1,2)]
  have ok: "status_ok s" "status_ok s'"
    using assms(4,6) by (simp_all add: is_2xx_status_ok)
  have parsed: "fst (syncEvent h cfg r st) =
      Inr (True, r\<lparr>guid := Some (ev_uid (toIcsEvent h (tick st) r)), url := first_event_url calendar\<rparr>)"
    if "convertIcsCalendar h b' = Inr calendar" for calendar
    using assms(3,5) ok that by (simp add: f syncEvent_try_verified)
  have thrown: "fst (syncEvent h cfg r st) = Inr (False, r)"
    if "convertIcsCalendar h b' = Inl e" for e
    using assms(3,5) ok that by (simp add: f syncEvent_try_unparsed)
  have "first_event_url calendar = ev_url e" if "events calendar = Some (e # es)" for calendar e es
    using that by (simp add: first_event_url_def)
  with parsed thrown show ?thesis
    by simp
qed

lemma example_put:
  "requestUrl example_host n (put_request cfg ev a ics) = Response 201 []"
  "requestUrl garbling_host n (put_request cfg ev a ics) = Response 201 []"
  by (simp_all add: example_host_def garbling_host_def example_requestUrl_def put_request_def)

lemma example_check:
  "requestUrl example_host n (check_request example_settings ev a) = Response 207 ''event''"
  "requestUrl garbling_host n (check_request example_settings ev a) = Response 207 ''garbage''"
  by (simp_all add: example_host_def garbling_host_def example_requestUrl_def check_request_def
      collection_url_def example_settings_def)

lemma example_convert_event:
  "convertIcsCalendar example_host ''event'' =
     Inr \<lparr>prodId = ''-//Example Corp.//CalDAV Client//EN'', version = ''2.0'',
          events = Some [review_event]\<rparr>"
  "convertIcsCalendar garbling_host ''garbage'' = Inl (Thrown ''cannot parse'')"
  by (simp_all add: example_host_def garbling_host_def example_convert_def)

theorem verified_push_sets_guid_and_url_witness:
  "generateIcsCalendar example_host
     (calend (toIcsEvent example_host (tick example_state) example_record)) = Inr ''BEGIN:VCALENDAR'' \<and>
   btoa example_host (credentials example_settings) = Inr ''user:secret'' \<and>
   requestUrl example_host (tick example_state + 2)
     (put_request example_settings (toIcsEvent example_host (tick example_state) example_record)
        ''user:secret'' ''BEGIN:VCALENDAR'') = Response 201 [] \<and>
   is_2xx 201 \<and>
   requestUrl example_host (tick example_state + 3)
     (check_request example_settings (toIcsEvent example_host (tick example_state) example_record)
        ''user:secret'') = Response 207 ''event'' \<and>
   is_2xx 207 \<and>
   convertIcsCalendar example_host ''event'' =
     Inr \<lparr>prodId = ''-//Example Corp.//CalDAV Client//EN'', version = ''2.0'',
          events = Some [review_event]\<rparr> \<and>
   fst (syncEvent example_host example_settings example_record example_state) =
     Inr (True, example_record\<lparr>guid := Some ''3f2a9c1e-7b4d-4e8a-9c57-0d1b2a3c4d5e@obsidian.md'',
                               url := Some ''https://cal.example/srv-77''\<rparr>)"
proof -
  have gen: "generateIcsCalendar example_host
     (calend (toIcsEvent example_host (tick example_state) example_record)) = Inr ''BEGIN:VCALENDAR''"
    by (rule example_generate)
  have auth: "btoa example_host (credentials example_settings) = Inr ''user:secret''"
    by (simp add: example_btoa credentials_def example_settings_def)
  have ok: "is_2xx 201" "is_2xx 207"
    by (simp_all add: is_2xx_def)
  have uid: "ev_uid (toIcsEvent example_host (tick example_state) example_record)
      = ''3f2a9c1e-7b4d-4e8a-9c57-0d1b2a3c4d5e@obsidian.md''"
    by (simp add: toIcsEvent_def event_uid_def example_record_def example_host_def Let_def)
  have url: "first_event_url \<lparr>prodId = ''-//Example Corp.//CalDAV Client//EN'', version = ''2.0'',
          events = Some [review_event]\<rparr> = Some ''https://cal.example/srv-77''"
    by (simp add: first_event_url_def review_event_def remote_event_def)
  have "\<forall>calendar. convertIcsCalendar example_host ''event'' = Inr calendar \<longrightarrow>
      fst (syncEvent example_host example_settings example_record example_state) =
        Inr (True, example_record\<lparr>guid := Some (ev_uid (toIcsEvent example_host (tick example_state) example_record)),
                                  url := first_event_url calendar\<rparr>)"
    using verified_push_sets_guid_and_url [OF gen auth example_put(1) ok(1) example_check(1) ok(2)]
    by (rule conjunct1)
  then have "fst (syncEvent example_host example_settings example_record example_state) =
      Inr (True, example_record\<lparr>guid := Some (ev_uid (toIcsEvent example_host (tick example_state) example_record)),
                                url := first_event_url \<lparr>prodId = ''-//Example Corp.//CalDAV Client//EN'',
                                  version = ''2.0'', events = Some [review_event]\<rparr>\<rparr>)"
    using example_convert_event(1) by blast
  then have "fst (syncEvent example_host example_settings example_record example_state) =
     Inr (True, example_record\<lparr>guid := Some ''3f2a9c1e-7b4d-4e8a-9c57-0d1b2a3c4d5e@obsidian.md'',
                               url := Some ''https://cal.example/srv-77''\<rparr>)"
    by (simp only: uid url)
  then show ?thesis
    using gen auth example_put(1) example_check(1) ok example_convert_event(1) by simp
qed

text \<open>
  C1 as stated fails in two ways. The guid is not read back from the response: a record with
  the guid \<^verbatim>\<open>note-1@obsidian.md\<close> is pushed (201) and verified (207) with a response whose
  VEVENT has the uid \<^verbatim>\<open>srv-77\<close>, and the record keeps its own guid. And success is not
  reported for every verified push: when the response of the PROPFIND (207) is a text on which
  \<^verbatim>\<open>convertIcsCalendar\<close> throws, \<^verbatim>\<open>syncEvent\<close> returns false and the record is as it was.
\<close>

theorem guid_not_read_back_counterexample:
  "requestUrl example_host (tick example_state + 2)
     (put_request example_settings
        (toIcsEvent example_host (tick example_state) (example_record\<lparr>guid := Some ''note-1@obsidian.md''\<rparr>))
        ''user:secret'' ''BEGIN:VCALENDAR'')
     = Response 201 [] \<and>
   is_2xx 201 \<and>
   requestUrl example_host (tick example_state + 3)
     (check_request example_settings
        (toIcsEvent example_host (tick example_state) (example_record\<lparr>guid := Some ''note-1@obsidian.md''\<rparr>))
        ''user:secret'')
     = Response 207 ''event'' \<and>
   is_2xx 207 \<and>
   map_sum id read_back_uid (convertIcsCalendar example_host ''event'') = Inr (Some ''srv-77'') \<and>
   fst (syncEvent example_host example_settings
          (example_record\<lparr>guid := Some ''note-1@obsidian.md''\<rparr>) example_state)
     = Inr (True, example_record\<lparr>guid := Some ''note-1@obsidian.md'',
                                 url := Some ''https://cal.example/srv-77''\<rparr>) \<and>
   Some ''note-1@obsidian.md'' \<noteq> Some ''srv-77'' \<and>
   requestUrl garbling_host (tick example_state + 2)
     (put_request example_settings (toIcsEvent garbling_host (tick example_state) example_record)
        ''user:secret'' ''BEGIN:VCALENDAR'')
     = Response 201 [] \<and>
   requestUrl garbling_host (tick example_state + 3)
     (check_request example_settings (toIcsEvent garbling_host (tick example_state) example_record)
        ''user:secret'')
     = Response 207 ''garbage'' \<and>
   convertIcsCalendar garbling_host ''garbage'' = Inl (Thrown ''cannot parse'') \<and>
   fst (syncEvent garbling_host example_settings example_record example_state)
     = Inr (False, example_record)"
proof -
  let ?r = "example_record\<lparr>guid := Some ''note-1@obsidian.md''\<rparr>"
  have ok: "is_2xx 201" "is_2xx 207"
    by (simp_all add: is_2xx_def)
  then have sok: "status_ok 201" "status_ok 207"
    by (simp_all add: is_2xx_status_ok)
  have auth: "btoa example_host (credentials example_settings) = Inr ''user:secret''"
    "btoa garbling_host (credentials example_settings) = Inr ''user:secret''"
    by (simp_all add: example_btoa credentials_def example_settings_def)
  have uid: "ev_uid (toIcsEvent example_host (tick example_state) ?r) = ''note-1@obsidian.md''"
    by (simp add: toIcsEvent_def event_uid_def example_record_def Let_def)
  have readback: "map_sum id read_back_uid (convertIcsCalendar example_host ''event'') = Inr (Some ''srv-77'')"
    by (simp add: example_convert_event read_back_uid_def review_event_def remote_event_def)
  have url: "first_event_url \<lparr>prodId = ''-//Example Corp.//CalDAV Client//EN'', version = ''2.0'',
          events = Some [review_event]\<rparr> = Some ''https://cal.example/srv-77''"
    by (simp add: first_event_url_def review_event_def remote_event_def)
  have a: "fst (syncEvent example_host example_settings ?r example_state)
      = Inr (True, example_record\<lparr>guid := Some ''note-1@obsidian.md'',
                                 url := Some ''https://cal.example/srv-77''\<rparr>)"
    using syncEvent_try_verified [OF example_put(1) sok(1) example_check(1) sok(2) example_convert_event(1)]
    by (simp add: fst_syncEvent [OF example_generate(1) auth(1)] uid url)
  have b: "fst (syncEvent garbling_host example_settings example_record example_state)
      = Inr (False, example_record)"
    using syncEvent_try_unparsed [OF example_put(2) sok(1) example_check(2) sok(2) example_convert_event(2)]
    by (simp add: fst_syncEvent [OF example_generate(4) auth(2)])
  show ?thesis
    using a b ok readback example_put example_check example_convert_event(2) by simp
qed

subsection \<open>The push phase changes nothing but the front matter of the note pushed\<close>

lemma syncEventFile_frame:
  "created (snd (syncEventFile h cfg i st)) = created st \<and>
   notices (snd (syncEventFile h cfg i st)) = notices st \<and>
   length (vault (snd (syncEventFile h cfg i st))) = length (vault st)"
proof (cases "tryCreateObsidianEvent (basename (vault st ! i)) (fileCache (vault st ! i))
    (content (vault st ! i))")
  case None
  then show ?thesis
    by (simp add: syncEventFile_def Let_def)
next
  case (Some r)
  obtain res st' where s: "syncEvent h cfg r st = (res, st')"
    by (metis surj_pair)
  then have "vault st' = vault st" "created st' = created st" "notices st' = notices st"
    using snd_syncEvent_frame [of h cfg r st] by simp_all
  with Some s show ?thesis
    by (simp add: syncEventFile_def Let_def split: sum.splits prod.splits)
qed

lemma syncEventFile_other:
  assumes "j \<noteq> i"
  shows "vault (snd (syncEventFile h cfg i st)) ! j = vault st ! j"
proof (cases "tryCreateObsidianEvent (basename (vault st ! i)) (fileCache (vault st ! i))
    (content (vault st ! i))")
  case None
  then show ?thesis
    by (simp add: syncEventFile_def Let_def)
next
  case (Some r)
  obtain res st' where s: "syncEvent h cfg r st = (res, st')"
    by (metis surj_pair)
  then have "vault st' = vault st"
    using snd_syncEvent_frame [of h cfg r st] by simp
  with Some s assms show ?thesis
    by (simp add: syncEventFile_def Let_def split: sum.splits prod.splits)
qed

lemma push_file_parts:
  "push_file h cfg i (S, failed, st) =
     (if getUUIDFromEventFile (vault st ! i) \<noteq> [] then insert (getUUIDFromEventFile (vault st ! i)) S else S,
      (case failed of None \<Rightarrow> fst (syncEventFile h cfg i st) | Some first \<Rightarrow> Some first),
      snd (syncEventFile h cfg i st))"
  by (cases "syncEventFile h cfg i st") (simp add: push_file_def Let_def split: option.splits)

lemma push_files_frame:
  "created (snd (snd (push_files h cfg is (S, failed, st)))) = created st \<and>
   notices (snd (snd (push_files h cfg is (S, failed, st)))) = notices st"
  by (induction "is" arbitrary: S failed st) (simp_all add: push_file_parts syncEventFile_frame)

lemma pushed_frame:
  "created (pushed h cfg st) = created st \<and> notices (pushed h cfg st) = notices st"
  using push_files_frame [of h cfg "md_files cfg st" "{}" None st] by (simp add: pushed_def)

text \<open>A host whose \<^verbatim>\<open>generateIcsCalendar\<close> and \<^verbatim>\<open>btoa\<close> never throw has no error in the
  push phase.\<close>

lemma syncEventFile_no_error:
  assumes "\<forall>c. \<exists>s. generateIcsCalendar h c = Inr s" and "\<forall>x. \<exists>a. btoa h x = Inr a"
  shows "fst (syncEventFile h cfg i st) = None"
proof (cases "tryCreateObsidianEvent (basename (vault st ! i)) (fileCache (vault st ! i))
    (content (vault st ! i))")
  case None
  then show ?thesis
    by (simp add: syncEventFile_def Let_def)
next
  case (Some r)
  obtain ics where g: "generateIcsCalendar h (calend (toIcsEvent h (tick st) r)) = Inr ics"
    using assms(1) by blast
  obtain a where b: "btoa h (credentials cfg) = Inr a"
    using assms(2) by blast
  obtain res where "fst (syncEvent h cfg r st) = Inr res"
    using fst_syncEvent [OF g b] by blast
  then obtain ok r' st' where "syncEvent h cfg r st = (Inr (ok, r'), st')"
    by (metis prod.collapse)
  with Some show ?thesis
    by (simp add: syncEventFile_def Let_def)
qed

lemma push_files_no_error:
  assumes "\<forall>c. \<exists>s. generateIcsCalendar h c = Inr s" and "\<forall>x. \<exists>a. btoa h x = Inr a"
  shows "fst (snd (push_files h cfg is (S, None, st))) = None"
  by (induction "is" arbitrary: S st)
    (simp_all add: push_file_parts syncEventFile_no_error [OF assms])

lemma push_error_none:
  assumes "\<forall>c. \<exists>s. generateIcsCalendar h c = Inr s" and "\<forall>x. \<exists>a. btoa h x = Inr a"
  shows "push_error h cfg st = None"
  using push_files_no_error [OF assms] by (simp add: push_error_def)

lemma example_push_error:
  "push_error example_host cfg st = None"
  "push_error offline_host cfg st = None"
  "push_error untitled_host cfg st = None"
  "push_error missing_collection_host cfg st = None"
  by (rule push_error_none; simp add: example_generate example_btoa)+

subsection \<open>The ways a full pass ends\<close>

lemma push_files_collapse:
  "push_files h cfg (md_files cfg st) ({}, None, st) =
     (known_ids h cfg st, push_error h cfg st, pushed h cfg st)"
  by (simp add: known_ids_def push_error_def pushed_def)

lemma sync_all_events_push_failed:
  assumes "push_error h cfg st = Some e"
  shows "sync_all_events h cfg st = (Some e, pushed h cfg st)"
  using assms by (simp add: sync_all_events_def push_files_collapse)

lemma sync_all_events_rejected:
  assumes "push_error h cfg st = None"
    and "btoa h (credentials cfg) = Inr a"
    and "requestUrl h (tick (pushed h cfg st)) (fetch_request cfg a) = Rejected e"
  shows "sync_all_events h cfg st = (Some e, fetched h cfg st)"
  using assms
  by (simp add: sync_all_events_def push_files_collapse fetchCalendar_def fetched_def Let_def)

lemma sync_all_events_refused:
  assumes "push_error h cfg st = None"
    and "btoa h (credentials cfg) = Inr a"
    and "requestUrl h (tick (pushed h cfg st)) (fetch_request cfg a) = Response s b"
    and "\<not> status_ok s"
  shows "sync_all_events h cfg st =
           (None, (fetched h cfg st)\<lparr>console := console (fetched h cfg st) @ [RequestError s]\<rparr>)"
  using assms
  by (simp add: sync_all_events_def push_files_collapse fetchCalendar_def fetched_def Let_def)

lemma sync_all_events_unparsed:
  assumes "push_error h cfg st = None"
    and "btoa h (credentials cfg) = Inr a"
    and "requestUrl h (tick (pushed h cfg st)) (fetch_request cfg a) = Response s b"
    and "status_ok s"
    and "convertIcsCalendar h b = Inl e"
  shows "sync_all_events h cfg st = (Some e, fetched h cfg st)"
  using assms
  by (simp add: sync_all_events_def push_files_collapse fetchCalendar_def fetched_def Let_def)

lemma sync_all_events_fetched:
  assumes "push_error h cfg st = None"
    and "btoa h (credentials cfg) = Inr a"
    and "requestUrl h (tick (pushed h cfg st)) (fetch_request cfg a) = Response s b"
    and "status_ok s"
    and "convertIcsCalendar h b = Inr calendar"
    and "events calendar = Some evs"
  shows "sync_all_events h cfg st =
           and_then (import_events h cfg (known_ids h cfg st) evs (fetched h cfg st)) all_synced"
  using assms
  by (simp add: sync_all_events_def push_files_collapse fetchCalendar_def fetched_def Let_def)

text \<open>An error before the \<^verbatim>\<open>try\<close> of \<^verbatim>\<open>syncEvent\<close> ends the pass: a note with a date the
  Date constructor cannot read has an Invalid Date as start, \<^verbatim>\<open>generateIcsCalendar\<close> throws
  on it, and the collection is never requested.\<close>

lemma invalid_date_example:
  "sync_all_events strict_host example_settings
     \<lparr>vault = [standup_note\<lparr>fileCache := Some \<lparr>frontmatter = Some [''type'' \<mapsto> ''calendar-event'',
                  ''date'' \<mapsto> ''31.12.2024''], frontmatterPosition_end = 63\<rparr>\<rparr>],
      created = [], notices = [], console = [], tick = 0\<rparr>
   = (Some (Thrown ''Invalid time value''),
      \<lparr>vault = [standup_note\<lparr>fileCache := Some \<lparr>frontmatter = Some [''type'' \<mapsto> ''calendar-event'',
                  ''date'' \<mapsto> ''31.12.2024''], frontmatterPosition_end = 63\<rparr>\<rparr>],
       created = [], notices = [], console = [], tick = 4\<rparr>)"
  by (simp add: sync_all_events_def md_files_def example_settings_def standup_note_def
      startsWith_def push_file_def syncEventFile_def tryCreateObsidianEvent_def syncEvent_def
      strict_host_def example_host_def calend_def toIcsEvent_def truthy_def new_Date_def
      example_parse_def getUUIDFromEventFile_def or_else_def Let_def)

text \<open>What holds of C2: a collection request answered with a status other than 200 to 299 is
  logged, \<^verbatim>\<open>fetchCalendar\<close> returns \<^verbatim>\<open>undefined\<close>, and the pass ends normally after the
  push phase, with no note created and no notice shown.\<close>

lemma refused_fetch_imports_nothing:
  assumes "push_error h cfg st = None"
    and "btoa h (credentials cfg) = Inr a"
    and "requestUrl h (tick (pushed h cfg st)) (fetch_request cfg a) = Response s b"
    and "http_status s" and "\<not> is_2xx s"
  shows "fst (fetchCalendar h cfg (pushed h cfg st)) = Inr None \<and>
         console (snd (fetchCalendar h cfg (pushed h cfg st)))
           = console (pushed h cfg st) @ [RequestError s] \<and>
         fst (sync_all_events h cfg st) = None \<and>
         created (snd (sync_all_events h cfg st)) = created st \<and>
         notices (snd (sync_all_events h cfg st)) = notices st"
proof -
  have no: "\<not> status_ok s"
    using assms(4,5) by (simp add: status_ok_iff_is_2xx)
  have "fst (fetchCalendar h cfg (pushed h cfg st)) = Inr None \<and>
      console (snd (fetchCalendar h cfg (pushed h cfg st))) = console (pushed h cfg st) @ [RequestError s]"
    using assms(2,3) no by (simp add: fetchCalendar_def Let_def)
  moreover have "sync_all_events h cfg st =
      (None, (fetched h cfg st)\<lparr>console := console (fetched h cfg st) @ [RequestError s]\<rparr>)"
    using assms(1,2,3) no by (rule sync_all_events_refused)
  ultimately show ?thesis
    by (simp add: fetched_def pushed_frame)
qed

text \<open>The scenario of a collection that answers 404, with the vault of three notes.\<close>

lemma missing_collection_example:
  "fst (sync_all_events missing_collection_host example_settings example_state) = None \<and>
   created (snd (sync_all_events missing_collection_host example_settings example_state)) = [] \<and>
   notices (snd (sync_all_events missing_collection_host example_settings example_state)) = []"
proof -
  have "requestUrl missing_collection_host n (fetch_request example_settings a) = Response 404 []" for n a
    by (simp add: missing_collection_host_def fetch_request_def collection_url_def
        example_settings_def endsWith_def)
  moreover have "http_status 404" "\<not> is_2xx 404"
    by (simp_all add: http_status_def is_2xx_def)
  ultimately show ?thesis
    using refused_fetch_imports_nothing [OF example_push_error(4) example_btoa(6),
        of example_settings example_state 404 "[]"]
    by (simp add: example_state_def)
qed

text \<open>
  C2 fails for a transport error. Without network every request is rejected: the rejections in
  the push phase are caught and logged by \<^verbatim>\<open>syncEvent\<close>, the rejection of the collection
  request is not caught, and the pass ends with that error.
\<close>

theorem fetch_rejection_is_not_caught:
  "fst (fetchCalendar offline_host example_settings (pushed offline_host example_settings example_state))
     = Inl (RequestFailed ''net::ERR_INTERNET_DISCONNECTED'') \<and>
   fst (sync_all_events offline_host example_settings example_state)
     = Some (RequestFailed ''net::ERR_INTERNET_DISCONNECTED'')"
proof -
  have r: "requestUrl offline_host n req = Rejected (RequestFailed ''net::ERR_INTERNET_DISCONNECTED'')"
    for n req
    by (simp add: offline_host_def)
  have "fst (fetchCalendar offline_host example_settings st)
      = Inl (RequestFailed ''net::ERR_INTERNET_DISCONNECTED'')" for st
    by (simp add: fetchCalendar_def example_btoa r Let_def)
  moreover have "sync_all_events offline_host example_settings example_state =
      (Some (RequestFailed ''net::ERR_INTERNET_DISCONNECTED''),
       fetched offline_host example_settings example_state)"
    using example_push_error(2) example_btoa(3) r by (rule sync_all_events_rejected)
  ultimately show ?thesis
    by simp
qed

subsection \<open>The known identifiers\<close>

lemma distinct_md_files: "distinct (md_files cfg st)"
  by (simp add: md_files_def)

lemma push_files_known:
  assumes "distinct is" and "\<forall>i\<in>set is. vault st ! i = vault st0 ! i"
  shows "fst (push_files h cfg is (S, failed, st)) =
           S \<union> set (filter (\<lambda>g. g \<noteq> []) (map (\<lambda>i. getUUIDFromEventFile (vault st0 ! i)) is))"
  using assms
proof (induction "is" arbitrary: S failed st)
  case Nil
  then show ?case by simp
next
  case (Cons i rest)
  let ?S = "if getUUIDFromEventFile (vault st0 ! i) \<noteq> []
            then insert (getUUIDFromEventFile (vault st0 ! i)) S else S"
  let ?failed = "case failed of None \<Rightarrow> fst (syncEventFile h cfg i st) | Some first \<Rightarrow> Some first"
  let ?st = "snd (syncEventFile h cfg i st)"
  have step: "push_file h cfg i (S, failed, st) = (?S, ?failed, ?st)"
    using Cons.prems(2) by (simp add: push_file_parts)
  have others: "\<forall>j\<in>set rest. vault ?st ! j = vault st0 ! j"
  proof
    fix j assume j: "j \<in> set rest"
    then have "j \<noteq> i"
      using Cons.prems(1) by auto
    then show "vault ?st ! j = vault st0 ! j"
      using Cons.prems(2) j by (simp add: syncEventFile_other)
  qed
  have "distinct rest"
    using Cons.prems(1) by simp
  from this others have "fst (push_files h cfg rest (?S, ?failed, ?st)) =
      ?S \<union> set (filter (\<lambda>g. g \<noteq> []) (map (\<lambda>i. getUUIDFromEventFile (vault st0 ! i)) rest))"
    by (rule Cons.IH)
  then show ?case
    using step by auto
qed

text \<open>
  C4. The set of known identifiers of a full pass consists of the non-empty guids the notes of
  the events directory have before the pass, although each note is pushed right after its guid
  is read. So when the guid a note has after the push phase is in the set, a note had that guid
  before the pass: a guid first assigned in the pass is not in the set.
\<close>

theorem known_ids_are_pre_sync_guids:
  "known_ids h cfg st =
     set (filter (\<lambda>g. g \<noteq> []) (map (\<lambda>i. getUUIDFromEventFile (vault st ! i)) (md_files cfg st))) \<and>
   (\<forall>i\<in>set (md_files cfg st).
      getUUIDFromEventFile (vault (pushed h cfg st) ! i) \<in> known_ids h cfg st \<longrightarrow>
      (\<exists>j\<in>set (md_files cfg st).
         getUUIDFromEventFile (vault st ! j) = getUUIDFromEventFile (vault (pushed h cfg st) ! i)))"
proof -
  have "fst (push_files h cfg (md_files cfg st) ({}, None, st)) =
      {} \<union> set (filter (\<lambda>g. g \<noteq> []) (map (\<lambda>i. getUUIDFromEventFile (vault st ! i)) (md_files cfg st)))"
    by (rule push_files_known) (simp_all add: distinct_md_files)
  then have k: "known_ids h cfg st =
      set (filter (\<lambda>g. g \<noteq> []) (map (\<lambda>i. getUUIDFromEventFile (vault st ! i)) (md_files cfg st)))"
    by (simp add: known_ids_def)
  then show ?thesis
    by auto
qed

lemma example_md_files: "md_files example_settings example_state = [0, 2]"
  by (simp add: md_files_def example_settings_def example_state_def startsWith_def
      standup_note_def todo_note_def review_note_def upt_rec)

lemma snd_snd_push_file:
  "snd (snd (push_file h cfg i acc)) = snd (syncEventFile h cfg i (snd (snd acc)))"
  by (cases acc) (simp add: push_file_parts)

lemma example_pushed_standup:
  "getUUIDFromEventFile (vault (pushed example_host example_settings example_state) ! 0)
     = ''3f2a9c1e-7b4d-4e8a-9c57-0d1b2a3c4d5e@obsidian.md''"
proof -
  let ?first = "snd (syncEventFile example_host example_settings 0 example_state)"
  have "pushed example_host example_settings example_state =
      snd (syncEventFile example_host example_settings 2 ?first)"
    by (simp add: pushed_def example_md_files snd_snd_push_file)
  then have "vault (pushed example_host example_settings example_state) ! 0 = vault ?first ! 0"
    by (simp add: syncEventFile_other)
  moreover have "getUUIDFromEventFile (vault ?first ! 0)
      = ''3f2a9c1e-7b4d-4e8a-9c57-0d1b2a3c4d5e@obsidian.md''"
    apply (simp add: syncEventFile_def example_state_def standup_note_def todo_note_def
        review_note_def tryCreateObsidianEvent_def newline_def Let_def)
    apply (simp add: syncEvent_def syncEvent_try_def Let_def example_host_def example_requestUrl_def
        put_request_def check_request_def collection_url_def example_settings_def
        status_ok_three_digits example_convert_def first_event_url_def review_event_def
        remote_event_def processFrontMatter_def getUUIDFromEventFile_def or_else_def
        toIcsEvent_def event_uid_def endsWith_def)
    done
  ultimately show ?thesis
    by simp
qed

lemma example_pre_sync_guids:
  "set (filter (\<lambda>g. g \<noteq> [])
     (map (\<lambda>i. getUUIDFromEventFile (vault example_state ! i)) (md_files example_settings example_state)))
   = {''srv-77''}"
proof -
  have "getUUIDFromEventFile (vault example_state ! 0) = []"
    by (simp add: example_state_def standup_note_def getUUIDFromEventFile_def or_else_def)
  moreover have "getUUIDFromEventFile (vault example_state ! 2) = ''srv-77''"
    by (simp add: example_state_def review_note_def getUUIDFromEventFile_def or_else_def)
  ultimately show ?thesis
    by (simp add: example_md_files)
qed

theorem known_ids_are_pre_sync_guids_witness:
  "0 \<in> set (md_files example_settings example_state) \<and>
   known_ids example_host example_settings example_state = {''srv-77''} \<and>
   getUUIDFromEventFile (vault (pushed example_host example_settings example_state) ! 0)
     = ''3f2a9c1e-7b4d-4e8a-9c57-0d1b2a3c4d5e@obsidian.md'' \<and>
   getUUIDFromEventFile (vault (pushed example_host example_settings example_state) ! 0)
     \<notin> known_ids example_host example_settings example_state"
proof -
  have "known_ids example_host example_settings example_state =
      set (filter (\<lambda>g. g \<noteq> [])
        (map (\<lambda>i. getUUIDFromEventFile (vault example_state ! i)) (md_files example_settings example_state)))"
    using known_ids_are_pre_sync_guids [of example_host example_settings example_state]
    by (rule conjunct1)
  then have k: "known_ids example_host example_settings example_state = {''srv-77''}"
    by (simp only: example_pre_sync_guids)
  show ?thesis
    by (simp add: k example_pushed_standup example_md_files)
qed

subsection \<open>The import of the remote events\<close>

lemma and_then_simps:
  "and_then (None, st) f = f st"
  "and_then (Some e, st) f = (Some e, st)"
  by (simp_all add: and_then_def)

lemma and_then_assoc: "and_then (and_then r f) g = and_then r (\<lambda>st. and_then (f st) g)"
  by (cases r) (simp add: and_then_def split: option.splits)

lemma import_events_append:
  "import_events h cfg K (xs @ ys) st =
     and_then (import_events h cfg K xs st) (import_events h cfg K ys)"
proof (induction xs arbitrary: st)
  case Nil
  then show ?case
    by (simp add: and_then_simps)
next
  case (Cons x xs)
  then show ?case
    by (cases "import_event h cfg K x st") (simp add: and_then_def split: option.splits)
qed

lemma import_events_at:
  "import_events h cfg K (xs @ ev # ys) st =
     and_then (import_events h cfg K xs st)
       (\<lambda>sx. and_then (import_event h cfg K ev sx) (import_events h cfg K ys))"
  by (cases "import_events h cfg K xs st")
    (simp add: import_events_append and_then_def split: option.splits)

lemma import_event_known: "ev_uid ev \<in> K \<Longrightarrow> import_event h cfg K ev st = (None, st)"
  by (simp add: import_event_def)

lemma import_event_multi_day:
  assumes "ev_uid ev \<notin> K" and "d_type (ev_start ev) = Some DATE_TIME" and "ev_end ev = Some e"
    and "format_date h (d_date e) \<noteq> format_date h (d_date (ev_start ev))"
  shows "import_event h cfg K ev st = (None, st\<lparr>notices := notices st @ [MultiDayNotSupported]\<rparr>)"
  using assms by (simp add: import_event_def Let_def)




text \<open>The notices of a loop that ends normally: one for every multi-day timed event that no
  note knows.\<close>

lemma notices_import_event:
  "notices (snd (import_event h cfg K ev st)) =
     notices st @ (if ev_uid ev \<notin> K \<and> multi_day_timed h ev then [MultiDayNotSupported] else [])"
  by (simp add: import_event_def multi_day_timed_def createFileWithProps_def Let_def
      split: option.splits)

lemma notices_import_events:
  "fst (import_events h cfg K evs st) = None \<Longrightarrow>
   notices (snd (import_events h cfg K evs st)) =
     notices st @ replicate (length (filter (\<lambda>ev. ev_uid ev \<notin> K \<and> multi_day_timed h ev) evs))
       MultiDayNotSupported"
proof (induction evs arbitrary: st)
  case Nil
  then show ?case by simp
next
  case (Cons ev evs)
  obtain e s1 where r: "import_event h cfg K ev st = (e, s1)"
    by (metis surj_pair)
  with Cons.prems have "e = None"
    by (cases e) (simp_all add: and_then_simps)
  with r Cons.prems have "fst (import_events h cfg K evs s1) = None"
    by (simp add: and_then_simps)
  then have "notices (snd (import_events h cfg K evs s1)) =
      notices s1 @ replicate (length (filter (\<lambda>ev. ev_uid ev \<notin> K \<and> multi_day_timed h ev) evs))
        MultiDayNotSupported"
    by (rule Cons.IH)
  moreover have "notices s1 =
      notices st @ (if ev_uid ev \<notin> K \<and> multi_day_timed h ev then [MultiDayNotSupported] else [])"
    using notices_import_event [of h cfg K ev st] r by simp
  ultimately show ?case
    using r \<open>e = None\<close> by (simp add: and_then_simps replicate_app_Cons_same)
qed




lemma example_fetch:
  "requestUrl example_host n (fetch_request example_settings a) = Response 207 ''collection''"
  "requestUrl untitled_host n (fetch_request example_settings a) = Response 207 ''untitled''"
  by (simp_all add: example_host_def untitled_host_def example_requestUrl_def fetch_request_def
      collection_url_def example_settings_def endsWith_def)

lemma example_convert_collection:
  "convertIcsCalendar example_host ''collection'' =
     Inr \<lparr>prodId = ''-//Example Corp.//CalDAV Client//EN'', version = ''2.0'',
          events = Some [review_event, conference_event, trip_event, call_event]\<rparr>"
  "convertIcsCalendar untitled_host ''untitled'' =
     Inr \<lparr>prodId = ''-//Example Corp.//CalDAV Client//EN'', version = ''2.0'',
          events = Some [untitled_event]\<rparr>"
  by (simp_all add: example_host_def untitled_host_def example_convert_def)

lemma example_known_ids:
  "known_ids h example_settings example_state = {''srv-77''}"
proof -
  have "fst (push_files h example_settings (md_files example_settings example_state)
      ({}, None, example_state)) =
      {} \<union> set (filter (\<lambda>g. g \<noteq> [])
        (map (\<lambda>i. getUUIDFromEventFile (vault example_state ! i)) (md_files example_settings example_state)))"
    by (rule push_files_known) (simp_all add: distinct_md_files)
  then have "known_ids h example_settings example_state = {} \<union> {''srv-77''}"
    by (simp only: known_ids_def example_pre_sync_guids)
  then show ?thesis
    by simp
qed

text \<open>
  C5. In a full pass that fetches a collection of any size, a remote event whose uid is in the
  set of known identifiers changes nothing: the loop body leaves every state as it is and raises
  no error, and the pass ends as it does on the collection without that event, so no note is
  created for it. The pass fetches the collection when no callback of the push phase ended with
  an error, the request is answered with a status from 200 to 299 and the parser returns the
  calendar.
\<close>

theorem known_event_never_imported:
  assumes "push_error h cfg st = None"
    and "btoa h (credentials cfg) = Inr a"
    and "requestUrl h (tick (pushed h cfg st)) (fetch_request cfg a) = Response s b"
    and "is_2xx s"
    and "convertIcsCalendar h b = Inr calendar"
    and "events calendar = Some (xs @ ev # ys)"
    and "ev_uid ev \<in> known_ids h cfg st"
  shows "(\<forall>st'. import_event h cfg (known_ids h cfg st) ev st' = (None, st')) \<and>
         sync_all_events h cfg st =
           and_then (import_events h cfg (known_ids h cfg st) (xs @ ys) (fetched h cfg st)) all_synced \<and>
         (\<forall>sz. import_events h cfg (known_ids h cfg st) (xs @ ys) (fetched h cfg st) = (None, sz) \<longrightarrow>
            sync_all_events h cfg st = (None, sz\<lparr>notices := notices sz @ [AllEventsSynced]\<rparr>))"
proof -
  let ?K = "known_ids h cfg st"
  have skip: "import_event h cfg ?K ev st' = (None, st')" for st'
    using assms(7) by (rule import_event_known)
  have "import_events h cfg ?K (xs @ ev # ys) st' = import_events h cfg ?K (xs @ ys) st'" for st'
    by (cases "import_events h cfg ?K xs st'")
      (simp add: import_events_at import_events_append skip and_then_def split: option.splits)
  moreover have "sync_all_events h cfg st =
      and_then (import_events h cfg ?K (xs @ ev # ys) (fetched h cfg st)) all_synced"
    using assms(1,2,3) is_2xx_status_ok [OF assms(4)] assms(5,6) by (rule sync_all_events_fetched)
  ultimately have "sync_all_events h cfg st =
      and_then (import_events h cfg ?K (xs @ ys) (fetched h cfg st)) all_synced"
    by simp
  then show ?thesis
    using skip by (simp add: and_then_simps all_synced_def)
qed

theorem known_event_never_imported_witness:
  "push_error example_host example_settings example_state = None \<and>
   btoa example_host (credentials example_settings) = Inr ''user:secret'' \<and>
   requestUrl example_host (tick (pushed example_host example_settings example_state))
     (fetch_request example_settings ''user:secret'') = Response 207 ''collection'' \<and>
   is_2xx 207 \<and>
   convertIcsCalendar example_host ''collection'' =
     Inr \<lparr>prodId = ''-//Example Corp.//CalDAV Client//EN'', version = ''2.0'',
          events = Some [review_event, conference_event, trip_event, call_event]\<rparr> \<and>
   [review_event, conference_event, trip_event, call_event]
     = [] @ review_event # [conference_event, trip_event, call_event] \<and>
   ev_uid review_event \<in> known_ids example_host example_settings example_state \<and>
   sync_all_events example_host example_settings example_state =
     and_then (import_events example_host example_settings
        (known_ids example_host example_settings example_state)
        ([] @ [conference_event, trip_event, call_event])
        (fetched example_host example_settings example_state)) all_synced"
proof -
  have auth: "btoa example_host (credentials example_settings) = Inr ''user:secret''"
    by (simp add: example_btoa credentials_def example_settings_def)
  have ok: "is_2xx 207"
    by (simp add: is_2xx_def)
  have evs: "events \<lparr>prodId = ''-//Example Corp.//CalDAV Client//EN'', version = ''2.0'',
      events = Some [review_event, conference_event, trip_event, call_event]\<rparr>
      = Some ([] @ review_event # [conference_event, trip_event, call_event])"
    by simp
  have known: "ev_uid review_event \<in> known_ids example_host example_settings example_state"
    by (simp add: example_known_ids review_event_def remote_event_def)
  show ?thesis
    using known_event_never_imported [OF example_push_error(1) auth example_fetch(1) ok
        example_convert_collection(1) evs known]
      example_push_error(1) auth example_fetch(1) ok example_convert_collection(1) known
    by simp
qed

text \<open>
  C6. In a full pass that fetches a collection, a remote event that no note knows, whose start
  is typed DATE-TIME and whose end is on another calendar day than its start, adds one notice
  that multi-day events are not supported and nothing else: in every state the loop body shows
  that notice, creates no note and raises no error. The pass goes on with the events after it,
  and when the loop raises no error for the other events the pass ends normally.
\<close>

theorem multi_day_event_skipped_with_one_warning:
  assumes "push_error h cfg st = None"
    and "btoa h (credentials cfg) = Inr a"
    and "requestUrl h (tick (pushed h cfg st)) (fetch_request cfg a) = Response s b"
    and "is_2xx s"
    and "convertIcsCalendar h b = Inr calendar"
    and "events calendar = Some (xs @ ev # ys)"
    and "ev_uid ev \<notin> known_ids h cfg st"
    and "d_type (ev_start ev) = Some DATE_TIME"
    and "ev_end ev = Some e"
    and "format_date h (d_date e) \<noteq> format_date h (d_date (ev_start ev))"
  shows "(\<forall>st'. import_event h cfg (known_ids h cfg st) ev st'
                 = (None, st'\<lparr>notices := notices st' @ [MultiDayNotSupported]\<rparr>)) \<and>
         sync_all_events h cfg st =
           and_then
             (and_then (import_events h cfg (known_ids h cfg st) xs (fetched h cfg st))
                (\<lambda>sx. import_events h cfg (known_ids h cfg st) ys
                         (sx\<lparr>notices := notices sx @ [MultiDayNotSupported]\<rparr>)))
             all_synced \<and>
         (\<forall>sx sy. import_events h cfg (known_ids h cfg st) xs (fetched h cfg st) = (None, sx) \<and>
                  import_events h cfg (known_ids h cfg st) ys
                    (sx\<lparr>notices := notices sx @ [MultiDayNotSupported]\<rparr>) = (None, sy) \<longrightarrow>
            sync_all_events h cfg st = (None, sy\<lparr>notices := notices sy @ [AllEventsSynced]\<rparr>))"
proof -
  let ?K = "known_ids h cfg st"
  have warn: "import_event h cfg ?K ev st' = (None, st'\<lparr>notices := notices st' @ [MultiDayNotSupported]\<rparr>)"
    for st'
    using assms(7-10) by (rule import_event_multi_day)
  have "sync_all_events h cfg st =
      and_then (import_events h cfg ?K (xs @ ev # ys) (fetched h cfg st)) all_synced"
    using assms(1,2,3) is_2xx_status_ok [OF assms(4)] assms(5,6) by (rule sync_all_events_fetched)
  then have pass: "sync_all_events h cfg st =
      and_then
        (and_then (import_events h cfg ?K xs (fetched h cfg st))
           (\<lambda>sx. import_events h cfg ?K ys (sx\<lparr>notices := notices sx @ [MultiDayNotSupported]\<rparr>)))
        all_synced"
    by (simp add: import_events_at warn and_then_simps)
  then show ?thesis
    using warn by (simp add: and_then_simps all_synced_def)
qed

theorem multi_day_event_skipped_with_one_warning_witness:
  "push_error example_host example_settings example_state = None \<and>
   btoa example_host (credentials example_settings) = Inr ''user:secret'' \<and>
   requestUrl example_host (tick (pushed example_host example_settings example_state))
     (fetch_request example_settings ''user:secret'') = Response 207 ''collection'' \<and>
   is_2xx 207 \<and>
   convertIcsCalendar example_host ''collection'' =
     Inr \<lparr>prodId = ''-//Example Corp.//CalDAV Client//EN'', version = ''2.0'',
          events = Some [review_event, conference_event, trip_event, call_event]\<rparr> \<and>
   [review_event, conference_event, trip_event, call_event]
     = [review_event] @ conference_event # [trip_event, call_event] \<and>
   ev_uid conference_event \<notin> known_ids example_host example_settings example_state \<and>
   d_type (ev_start conference_event) = Some DATE_TIME \<and>
   ev_end conference_event = Some \<lparr>d_date = Some 1714644000000, d_type = Some DATE_TIME\<rparr> \<and>
   format_date example_host (Some 1714644000000) = ''2024-05-02'' \<and>
   format_date example_host (d_date (ev_start conference_event)) = ''2024-05-01'' \<and>
   import_event example_host example_settings (known_ids example_host example_settings example_state)
     conference_event example_state = (None, example_state\<lparr>notices := [MultiDayNotSupported]\<rparr>)"
proof -
  have auth: "btoa example_host (credentials example_settings) = Inr ''user:secret''"
    by (simp add: example_btoa credentials_def example_settings_def)
  have ok: "is_2xx 207"
    by (simp add: is_2xx_def)
  have evs: "events \<lparr>prodId = ''-//Example Corp.//CalDAV Client//EN'', version = ''2.0'',
      events = Some [review_event, conference_event, trip_event, call_event]\<rparr>
      = Some ([review_event] @ conference_event # [trip_event, call_event])"
    by simp
  have new: "ev_uid conference_event \<notin> known_ids example_host example_settings example_state"
    by (simp add: example_known_ids conference_event_def remote_event_def)
  have ty: "d_type (ev_start conference_event) = Some DATE_TIME"
    by (simp add: conference_event_def remote_event_def)
  have e: "ev_end conference_event = Some \<lparr>d_date = Some 1714644000000, d_type = Some DATE_TIME\<rparr>"
    by (simp add: conference_event_def remote_event_def)
  have d2: "format_date example_host (Some 1714644000000) = ''2024-05-02''"
    by (simp add: example_host_def example_format_date_def)
  have d1: "format_date example_host (d_date (ev_start conference_event)) = ''2024-05-01''"
    by (simp add: example_host_def example_format_date_def conference_event_def remote_event_def)
  have other: "format_date example_host (d_date \<lparr>d_date = Some 1714644000000, d_type = Some DATE_TIME\<rparr>)
      \<noteq> format_date example_host (d_date (ev_start conference_event))"
    using d1 d2 by simp
  have n: "notices example_state = []"
    by (simp add: example_state_def)
  have "\<forall>st'. import_event example_host example_settings
      (known_ids example_host example_settings example_state) conference_event st'
      = (None, st'\<lparr>notices := notices st' @ [MultiDayNotSupported]\<rparr>)"
    using multi_day_event_skipped_with_one_warning [OF example_push_error(1) auth example_fetch(1) ok
        example_convert_collection(1) evs new ty e other]
    by (rule conjunct1)
  then have "import_event example_host example_settings
      (known_ids example_host example_settings example_state) conference_event example_state
      = (None, example_state\<lparr>notices := [MultiDayNotSupported]\<rparr>)"
    using n by simp
  then show ?thesis
    using example_push_error(1) auth example_fetch(1) ok example_convert_collection(1) new ty e d1 d2
    by simp
qed





end
